theory Spec2Isabelle
  imports Complex_Main
begin

text \<open>
  A shallow embedding of the detection core of the analyzer package: the balanced, the
  realistic and the conservative detector (\<^verbatim>\<open>balanced_detector.py\<close>,
  \<^verbatim>\<open>realistic_detector.py\<close>, \<^verbatim>\<open>conservative_detector.py\<close>) and the
  repository summary of \<^verbatim>\<open>metrics_calculator.py\<close>. Each method is a function of
  the same name, prefixed with the name of its detector; the instance \<^verbatim>\<open>self\<close> is
  a record built by the constructor. A call that can raise returns a sum, with the error
  on the left.
\<close>

section \<open>Python primitives used by the detectors\<close>

text \<open>
  Python strings are modelled as lists of characters with code points below 256; the
  character classes below are those of \<^verbatim>\<open>str.isspace\<close>, \<^verbatim>\<open>str.islower\<close>,
  \<^verbatim>\<open>str.isupper\<close> and \<^verbatim>\<open>str.lower\<close> on that range. Python floats are modelled as
  exact reals, Python's unbounded integers as \<open>int\<close> and lengths as \<open>nat\<close>.
\<close>

datatype py_error = ZeroDivisionError

definition nl :: char where
  "nl = CHR 0x0A"

definition isspace :: "char \<Rightarrow> bool" where
  "isspace c = ((of_char c :: nat) \<in> set [9, 10, 11, 12, 13, 28, 29, 30, 31, 32, 133, 160])"

definition char_islower :: "char \<Rightarrow> bool" where
  "char_islower c =
     (let n = (of_char c :: nat) in
      (97 \<le> n \<and> n \<le> 122) \<or> n = 170 \<or> n = 181 \<or> n = 186 \<or>
      (223 \<le> n \<and> n \<le> 246) \<or> (248 \<le> n \<and> n \<le> 255))"

definition char_isupper :: "char \<Rightarrow> bool" where
  "char_isupper c =
     (let n = (of_char c :: nat) in
      (65 \<le> n \<and> n \<le> 90) \<or> (192 \<le> n \<and> n \<le> 214) \<or> (216 \<le> n \<and> n \<le> 222))"

definition char_lower :: "char \<Rightarrow> char" where
  "char_lower c = (if char_isupper c then char_of ((of_char c :: nat) + 32) else c)"

definition str_lower :: "string \<Rightarrow> string" where
  "str_lower s = map char_lower s"

definition str_islower :: "string \<Rightarrow> bool" where
  "str_islower s = (list_ex char_islower s \<and> \<not> list_ex char_isupper s)"

definition lstrip :: "string \<Rightarrow> string" where
  "lstrip s = dropWhile isspace s"

definition rstrip :: "string \<Rightarrow> string" where
  "rstrip s = rev (dropWhile isspace (rev s))"

definition strip :: "string \<Rightarrow> string" where
  "strip s = lstrip (rstrip s)"

text \<open>
  \<^verbatim>\<open>s.split(sep)\<close> for a one-character separator. The result is never empty, so
  the second case of the pattern match below is never taken.
\<close>

fun split :: "char \<Rightarrow> string \<Rightarrow> string list" where
  "split sep [] = [[]]"
| "split sep (c # cs) =
     (if c = sep then [] # split sep cs
      else (case split sep cs of
              piece # pieces \<Rightarrow> (c # piece) # pieces
            | [] \<Rightarrow> [[c]]))"

definition truediv :: "real \<Rightarrow> real \<Rightarrow> py_error + real" where
  "truediv a b = (if b = 0 then Inl ZeroDivisionError else Inr (a / b))"

definition py_int :: "real \<Rightarrow> int" where
  "py_int x = (if 0 \<le> x then \<lfloor>x\<rfloor> else \<lceil>x\<rceil>)"



text \<open>
  \<^verbatim>\<open>statistics.variance\<close> is the sample variance. The library raises on fewer than
  two data points; its only call is guarded by \<^verbatim>\<open>len(indentations) > 1\<close>.
\<close>

definition statistics_variance :: "real list \<Rightarrow> real" where
  "statistics_variance xs =
     (let n = length xs; m = sum_list xs / real n in
      sum_list (map (\<lambda>x. (x - m)\<^sup>2) xs) / real (n - 1))"

subsection \<open>Regular expressions\<close>

text \<open>
  The regular-expression engine is the standard library's, not the repository's. It is a
  parameter of the model: an engine maps a compiled pattern and a text to the list that
  \<^verbatim>\<open>findall\<close> returns (only the length of that list, or the strings captured by a
  single group, are ever used). \<^verbatim>\<open>search\<close> succeeds exactly when \<^verbatim>\<open>findall\<close> is
  not empty. Pattern sources are transliterated into printable characters: \<open>%\<close> stands
  for the backslash, \<open>~\<close> for the double quote and \<open>!\<close> for the single quote.
\<close>

datatype re_flag = MULTILINE | IGNORECASE | DOTALL

datatype regex = Regex string "re_flag list"

type_synonym re_engine = "regex \<Rightarrow> string \<Rightarrow> string list"

definition re_compile :: "string \<Rightarrow> re_flag list \<Rightarrow> regex" where
  "re_compile p flags = Regex p flags"

definition re_search :: "re_engine \<Rightarrow> regex \<Rightarrow> string \<Rightarrow> bool" where
  "re_search re pattern content = (re pattern content \<noteq> [])"

subsection \<open>Result structures\<close>

datatype risk = MINIMAL | LOW | MEDIUM | HIGH | VERY_HIGH

fun risk_rank :: "risk \<Rightarrow> nat" where
  "risk_rank MINIMAL = 0"
| "risk_rank LOW = 1"
| "risk_rank MEDIUM = 2"
| "risk_rank HIGH = 3"
| "risk_rank VERY_HIGH = 4"

text \<open>
  An explanation line is either a fixed text or an f-string with one value formatted
  as a percentage (\<^verbatim>\<open>{x:.1%}\<close>) or as an integer; the value is kept unformatted.
\<close>

datatype message = Msg string | MsgPct string real string | MsgInt string nat string

record analysis =
  confidence_score :: real
  estimated_lines :: int
  total_analyzed_lines :: nat
  risk_level :: risk
  language :: string

section \<open>The balanced detector\<close>

record balanced_weights =
  w_strong_indicators :: real
  w_moderate_indicators :: real
  w_weak_indicators :: real
  w_consistency_bonus :: real
  w_human_penalty :: real

record 'c balanced_detector =
  config :: 'c
  strong_ai_patterns :: "(string \<times> string list) list"
  moderate_ai_patterns :: "(string \<times> string list) list"
  weak_ai_patterns :: "string list"
  human_patterns :: "string list"
  compiled_strong :: "(string \<times> regex list) list"
  compiled_moderate :: "(string \<times> regex list) list"
  compiled_weak :: "regex list"
  compiled_human :: "regex list"
  weights :: balanced_weights

record balanced_indicators =
  ind_strong_ai_patterns :: bool
  ind_moderate_ai_patterns :: bool
  ind_weak_ai_patterns :: bool
  ind_high_consistency :: bool
  ind_human_patterns_detected :: bool

record balanced_scores =
  ds_strong_indicators :: real
  ds_moderate_indicators :: real
  ds_weak_indicators :: real
  ds_consistency_score :: real
  ds_human_patterns :: real
  ds_base_confidence :: real
  ds_human_penalty_applied :: real

record balanced_analysis = analysis +
  indicators :: balanced_indicators
  detailed_scores :: balanced_scores
  analysis_explanation :: "message list"

subsection \<open>Construction: pattern tables and weights\<close>

definition balanced_strong_ai_patterns :: "(string \<times> string list) list" where
  "balanced_strong_ai_patterns =
   [(''explicit_markers'',
     [''#%s*AI-generated'',
      ''#%s*Generated%s+by%s+(AI|Copilot|GitHub%s+Copilot)'',
      ''@generated%s*$'',
      ''#%s*@generated%s*$'',
      ''This%s+code%s+was%s+(generated|created)%s+by%s+(AI|Copilot|assistant)'',
      ''Auto-generated%s+by'',
      ''Code%s+Generated%s+by%s+Copilot'',
      ''Copilot%s+(Detection|Analysis|Code)'',
      ''machine%s+learning%s+techniques'',
      ''detection%s+(algorithms?|engine)'']),
    (''ai_documentation_style'',
     [''~~~[%s%S]*?Args:[%s%S]*?Returns:[%s%S]*?~~~'',
      ''~~~[%s%S]*?Parameters:[%s%S]*?Returns:[%s%S]*?~~~'',
      ''~~~[%s%S]*?Example:[%s%S]*?>>>[%s%S]*?~~~'',
      ''def%s+%w+%([^)]*%):%s*%n%s*~~~[^~]*~~~'',
      ''class%s+%w+[^:]*:%s*%n%s*~~~[^~]*~~~'',
      ''~~~[%s%S]*?(Initialize|Analyze|Calculate|Process)[%s%S]*?~~~'']),
    (''ai_code_patterns'',
     [''def%s+%w+%([^)]*%)%s*->%s*(Optional%[|Union%[|List%[|Dict%[)'',
      ''try:%s*%n[%s%S]*?%nexcept%s+%w*Exception%s+as%s+%w+:%s*%n%s*logger%.'',
      ''if%s+__name__%s*==%s*[%!~]__main__[%!~]:%s*%n%s*main%(%)'',
      ''from%s+typing%s+import%s+.*Dict.*Any'',
      ''def%s+_[a-z_]+%([^)]*%)%s*->%s*(float|int|str|bool):'',
      ''self%.%w+%s*=%s*%w+%s*or%s*%{%}''])]"

definition balanced_moderate_ai_patterns :: "(string \<times> string list) list" where
  "balanced_moderate_ai_patterns =
   [(''consistent_naming'',
     [''%bget_[a-z_]+%b'',
      ''%bset_[a-z_]+%b'',
      ''%bcalculate_[a-z_]+%b'',
      ''%bprocess_[a-z_]+%b'',
      ''%bvalidate_[a-z_]+%b'']),
    (''structural_consistency'',
     [''from%s+typing%s+import%s+.*Optional.*Union'',
      ''@%w+%s*%n%s*def%s+%w+'',
      ''class%s+%w+%([A-Z]%w*%):%s*%n%s*~~~'']),
    (''modern_patterns'',
     [''f[%!~][^%!%~]*{[^}]+}[^%!%~]*[%!~]'',
      ''with%s+open%([^)]*%)%s+as%s+%w+:'',
      ''lambda%s+%w+:%s+%w+%.''])]"

definition balanced_weak_ai_patterns :: "string list" where
  "balanced_weak_ai_patterns =
    [''#%s*TODO:'',
     ''#%s*FIXME:'',
     ''#%s*NOTE:'']"

definition balanced_human_patterns :: "string list" where
  "balanced_human_patterns =
    [''#%s*(hack|quick%s+fix|temporary)'',
     ''%b(wtf|damn|shit|crap)%b'',
     ''#%s*[a-z]'',
     ''%w{1,2}%s*=%s*%w{1,2}'',
     ''def%s+[a-z]{1,3}%('']"

definition balanced_initialize_weights :: balanced_weights where
  "balanced_initialize_weights =
     \<lparr> w_strong_indicators = 0.5,
       w_moderate_indicators = 0.3,
       w_weak_indicators = 0.15,
       w_consistency_bonus = 0.05,
       w_human_penalty = - 0.15 \<rparr>"

definition BalancedCopilotDetector :: "'c \<Rightarrow> 'c balanced_detector" where
  "BalancedCopilotDetector indicators_config =
     \<lparr> config = indicators_config,
       strong_ai_patterns = balanced_strong_ai_patterns,
       moderate_ai_patterns = balanced_moderate_ai_patterns,
       weak_ai_patterns = balanced_weak_ai_patterns,
       human_patterns = balanced_human_patterns,
       compiled_strong =
         map (\<lambda>(category, patterns).
               (category, map (\<lambda>p. re_compile p [MULTILINE, IGNORECASE]) patterns))
             balanced_strong_ai_patterns,
       compiled_moderate =
         map (\<lambda>(category, patterns).
               (category, map (\<lambda>p. re_compile p [MULTILINE]) patterns))
             balanced_moderate_ai_patterns,
       compiled_weak = map (\<lambda>p. re_compile p [MULTILINE, IGNORECASE]) balanced_weak_ai_patterns,
       compiled_human = map (\<lambda>p. re_compile p [MULTILINE, IGNORECASE]) balanced_human_patterns,
       weights = balanced_initialize_weights \<rparr>"

subsection \<open>Indicator scores\<close>

definition balanced_analyze_strong_indicators ::
  "re_engine \<Rightarrow> 'c balanced_detector \<Rightarrow> string \<Rightarrow> real" where
  "balanced_analyze_strong_indicators re self content =
     (let (total_matches, max_possible) =
            fold (\<lambda>(category, patterns) (total_matches, max_possible).
                    let category_matches =
                          length (filter (\<lambda>pattern. re_search re pattern content) patterns)
                    in (total_matches + min category_matches 2, max_possible + 2))
                 (compiled_strong self) (0 :: nat, 0 :: nat)
      in if max_possible > 0 then real total_matches / real max_possible else 0)"

text \<open>
  The three functions below divide by a fraction of the number of lines without a guard;
  the division is modelled with its \<^verbatim>\<open>ZeroDivisionError\<close>.
\<close>

fun balanced_moderate_loop ::
  "re_engine \<Rightarrow> string \<Rightarrow> (string \<times> regex list) list \<Rightarrow> real \<times> nat \<Rightarrow> py_error + real \<times> nat" where
  "balanced_moderate_loop re content [] acc = Inr acc"
| "balanced_moderate_loop re content ((category, patterns) # rest) (total_matches, max_possible) =
     (let category_matches = sum_list (map (\<lambda>pattern. length (re pattern content)) patterns) in
      case truediv (real category_matches) (real (length (split nl content)) / 10) of
        Inl e \<Rightarrow> Inl e
      | Inr q \<Rightarrow>
          balanced_moderate_loop re content rest (total_matches + min q 1, max_possible + 1))"

definition balanced_analyze_moderate_indicators ::
  "re_engine \<Rightarrow> 'c balanced_detector \<Rightarrow> string \<Rightarrow> py_error + real" where
  "balanced_analyze_moderate_indicators re self content =
     (case balanced_moderate_loop re content (compiled_moderate self) (0, 0) of
        Inl e \<Rightarrow> Inl e
      | Inr (total_matches, max_possible) \<Rightarrow>
          Inr (if max_possible > 0 then total_matches / real max_possible else 0))"

definition balanced_analyze_weak_indicators ::
  "re_engine \<Rightarrow> 'c balanced_detector \<Rightarrow> string \<Rightarrow> py_error + real" where
  "balanced_analyze_weak_indicators re self content =
     (let matches = sum_list (map (\<lambda>pattern. length (re pattern content)) (compiled_weak self));
          lines = length (split nl content)
      in case truediv (real matches) (real lines / 20) of
           Inl e \<Rightarrow> Inl e
         | Inr q \<Rightarrow> Inr (min q 1))"

definition balanced_analyze_human_patterns ::
  "re_engine \<Rightarrow> 'c balanced_detector \<Rightarrow> string \<Rightarrow> py_error + real" where
  "balanced_analyze_human_patterns re self content =
     (let matches = sum_list (map (\<lambda>pattern. length (re pattern content)) (compiled_human self));
          lines = length (split nl content)
      in case truediv (real matches) (real lines / 30) of
           Inl e \<Rightarrow> Inl e
         | Inr q \<Rightarrow> Inr (min q 1))"

subsection \<open>Consistency features\<close>

text \<open>
  The indentation widths are lengths, hence the argument type \<open>nat list\<close>; the steps
  between them are integer differences.
\<close>

definition balanced_calculate_indentation_consistency :: "nat list \<Rightarrow> real" where
  "balanced_calculate_indentation_consistency indentations =
     (if length indentations \<le> 1 then 1
      else
        let unique_indents = sort (remdups indentations);
            steps = map (\<lambda>i. int (unique_indents ! (i + 1)) - int (unique_indents ! i))
                        [0 ..< length unique_indents - 1]
        in if length unique_indents > 1 \<and> length (remdups steps) = 1 then 1
           else
             let variance = (if length indentations > 1
                             then statistics_variance (map real indentations) else 0);
                 max_indent = (if indentations \<noteq> [] then Max (set indentations) else 1)
             in max 0 (1 - variance / real (max_indent + 1)))"

definition balanced_calculate_naming_consistency :: "string list \<Rightarrow> real" where
  "balanced_calculate_naming_consistency names =
     (if names = [] then 0.5
      else
        let snake_case = length (filter (\<lambda>name. CHR ''_'' \<in> set name \<and> str_islower name) names);
            camel_case = length (filter (\<lambda>name. name \<noteq> str_lower name \<and> CHR ''_'' \<notin> set name) names);
            total = length names;
            max_convention = max snake_case camel_case
        in if total > 0 then real max_convention / real total else 0.5)"

definition balanced_calculate_comment_consistency :: "string list \<Rightarrow> real" where
  "balanced_calculate_comment_consistency comments =
     (if comments = [] then 0.5
      else
        let capitalized = length (filter (\<lambda>comment. strip comment \<noteq> [] \<and>
                                             char_isupper (hd (strip comment))) comments);
            lowercase = length (filter (\<lambda>comment. strip comment \<noteq> [] \<and>
                                            char_islower (hd (strip comment))) comments);
            total = length comments;
            max_style = max capitalized lowercase
        in if total > 0 then real max_style / real total else 0.5)"

definition balanced_analyze_consistency :: "re_engine \<Rightarrow> string \<Rightarrow> string list \<Rightarrow> real" where
  "balanced_analyze_consistency re content lines =
     (let indentations = map (\<lambda>line. length line - length (lstrip line))
                             (filter (\<lambda>line. strip line \<noteq> []) lines);
          indentation_consistency = balanced_calculate_indentation_consistency indentations;
          function_names = re (Regex ''def%s+(%w+)%('' []) content;
          variable_names = re (Regex ''%b([a-z_][a-z0-9_]*)%s*='' []) content;
          naming_consistency =
            balanced_calculate_naming_consistency (function_names @ variable_names);
          comments = re (Regex ''#%s*(.+)$'' [MULTILINE]) content;
          comment_consistency = balanced_calculate_comment_consistency comments
      in (indentation_consistency + naming_consistency + comment_consistency) / 3)"

subsection \<open>Calibration, risk and result\<close>

definition balanced_apply_realistic_thresholds :: "real \<Rightarrow> nat \<Rightarrow> real" where
  "balanced_apply_realistic_thresholds confidence total_lines =
     (let confidence = (if total_lines < 20 then confidence * 0.5
                        else if total_lines < 50 then confidence * 0.7
                        else confidence);
          confidence = (if confidence > 0.25 \<and> total_lines > 30
                        then min (confidence * 0.75) 0.40 else confidence);
          confidence = (if confidence < 0.05 then 0 else confidence);
          confidence = (if confidence > 0.6 then 0.6 + (confidence - 0.6) * 0.5
                        else confidence)
      in min (max confidence 0) 0.75)"

definition balanced_calculate_balanced_risk :: "real \<Rightarrow> real \<Rightarrow> real \<Rightarrow> risk" where
  "balanced_calculate_balanced_risk confidence strong_score moderate_score =
     (if strong_score > 0.5 \<or> confidence > 0.7 then HIGH
      else if strong_score > 0.2 \<or> moderate_score > 0.5 \<or> confidence > 0.4 then MEDIUM
      else if moderate_score > 0.2 \<or> confidence > 0.15 then LOW
      else MINIMAL)"

definition balanced_generate_explanation ::
  "real \<Rightarrow> real \<Rightarrow> real \<Rightarrow> real \<Rightarrow> real \<Rightarrow> message list" where
  "balanced_generate_explanation confidence strong moderate weak human =
     [if confidence > 0.6 then MsgPct ''High confidence ('' confidence '') of AI assistance''
      else if confidence > 0.3
        then MsgPct ''Moderate confidence ('' confidence '') of AI assistance''
      else if confidence > 0.1 then MsgPct ''Low confidence ('' confidence '') of AI assistance''
      else Msg ''Appears to be primarily human-written''] @
     (if strong > 0.3
        then [Msg ''Strong AI patterns detected (documentation style, perfect structure)'']
        else []) @
     (if moderate > 0.3
        then [Msg ''Moderate AI patterns detected (consistent naming, modern syntax)'']
        else []) @
     (if weak > 0.3
        then [Msg ''Weak AI indicators present (TODO comments, standard patterns)'']
        else []) @
     (if human > 0.3
        then [Msg ''Human coding patterns detected (informal style, shortcuts)'']
        else [])"

definition balanced_detect_language :: "string \<Rightarrow> string" where
  "balanced_detect_language file_extension =
     (case map_of
        [(''.py'', ''python''), (''.js'', ''javascript''), (''.ts'', ''typescript''),
         (''.jsx'', ''javascript''), (''.tsx'', ''typescript''), (''.java'', ''java''),
         (''.cpp'', ''cpp''), (''.c'', ''c''), (''.cs'', ''csharp''), (''.php'', ''php''),
         (''.rb'', ''ruby''), (''.go'', ''go''), (''.rs'', ''rust'')]
        (str_lower file_extension) of
        Some l \<Rightarrow> l
      | None \<Rightarrow> ''unknown'')"

definition balanced_create_empty_analysis :: balanced_analysis where
  "balanced_create_empty_analysis =
     \<lparr> confidence_score = 0,
       estimated_lines = 0,
       total_analyzed_lines = 0,
       risk_level = MINIMAL,
       language = ''unknown'',
       indicators =
         \<lparr> ind_strong_ai_patterns = False,
           ind_moderate_ai_patterns = False,
           ind_weak_ai_patterns = False,
           ind_high_consistency = False,
           ind_human_patterns_detected = False \<rparr>,
       detailed_scores =
         \<lparr> ds_strong_indicators = 0,
           ds_moderate_indicators = 0,
           ds_weak_indicators = 0,
           ds_consistency_score = 0,
           ds_human_patterns = 0,
           ds_base_confidence = 0,
           ds_human_penalty_applied = 0 \<rparr>,
       analysis_explanation = [Msg ''Empty file - no analysis possible''] \<rparr>"

definition balanced_analyze_content ::
  "re_engine \<Rightarrow> 'c balanced_detector \<Rightarrow> string \<Rightarrow> string \<Rightarrow> py_error + balanced_analysis" where
  "balanced_analyze_content re self content file_extension =
     (if strip content = [] then Inr balanced_create_empty_analysis
      else
        let lines = filter (\<lambda>line. strip line \<noteq> []) (split nl content);
            total_lines = length lines
        in
        if total_lines = 0 then Inr balanced_create_empty_analysis
        else
          let strong_score = balanced_analyze_strong_indicators re self content in
          case balanced_analyze_moderate_indicators re self content of
            Inl e \<Rightarrow> Inl e
          | Inr moderate_score \<Rightarrow>
          (case balanced_analyze_weak_indicators re self content of
            Inl e \<Rightarrow> Inl e
          | Inr weak_score \<Rightarrow>
          (let consistency_score = balanced_analyze_consistency re content lines in
          case balanced_analyze_human_patterns re self content of
            Inl e \<Rightarrow> Inl e
          | Inr human_score \<Rightarrow>
          (let base_confidence =
                 strong_score * w_strong_indicators (weights self) +
                 moderate_score * w_moderate_indicators (weights self) +
                 weak_score * w_weak_indicators (weights self) +
                 consistency_score * w_consistency_bonus (weights self);
               human_penalty =
                 (if human_score > 0.85
                  then (human_score - 0.85) * w_human_penalty (weights self) else 0);
               final_confidence = max 0 (base_confidence + human_penalty);
               final_confidence = balanced_apply_realistic_thresholds final_confidence total_lines;
               risk_level = balanced_calculate_balanced_risk final_confidence strong_score moderate_score;
               estimated_ai_lines =
                 (if final_confidence > 0.05
                  then py_int (real total_lines * final_confidence) else 0)
           in Inr
             \<lparr> confidence_score = final_confidence,
               estimated_lines = estimated_ai_lines,
               total_analyzed_lines = total_lines,
               risk_level = risk_level,
               language = balanced_detect_language file_extension,
               indicators =
                 \<lparr> ind_strong_ai_patterns = (strong_score > 0.3),
                   ind_moderate_ai_patterns = (moderate_score > 0.3),
                   ind_weak_ai_patterns = (weak_score > 0.3),
                   ind_high_consistency = (consistency_score > 0.6),
                   ind_human_patterns_detected = (human_score > 0.3) \<rparr>,
               detailed_scores =
                 \<lparr> ds_strong_indicators = strong_score,
                   ds_moderate_indicators = moderate_score,
                   ds_weak_indicators = weak_score,
                   ds_consistency_score = consistency_score,
                   ds_human_patterns = human_score,
                   ds_base_confidence = base_confidence,
                   ds_human_penalty_applied = human_penalty \<rparr>,
               analysis_explanation =
                 balanced_generate_explanation final_confidence strong_score moderate_score
                   weak_score human_score \<rparr>))))"

section \<open>The realistic detector\<close>

record realistic_weights =
  rw_explicit_markers :: real
  rw_subtle_patterns :: real
  rw_length_bonus :: real
  rw_consistency_bonus :: real

record 'c realistic_detector =
  r_config :: 'c
  r_explicit_markers :: "string list"
  r_subtle_patterns :: "string list"
  r_compiled_explicit :: "regex list"
  r_compiled_subtle :: "regex list"
  r_weights :: realistic_weights

record realistic_indicators =
  rind_explicit_markers :: bool
  rind_subtle_patterns :: bool
  rind_file_complexity :: bool

record realistic_scores =
  rds_explicit_markers :: real
  rds_subtle_patterns :: real
  rds_final_confidence :: real

record realistic_analysis = analysis +
  r_indicators :: realistic_indicators
  r_detailed_scores :: realistic_scores
  r_analysis_explanation :: "message list"

definition realistic_explicit_markers :: "string list" where
  "realistic_explicit_markers =
    [''#.*[Cc]ode [Gg]enerated by [Cc]opilot'',
     ''#.*[Gg]enerated by [Cc]opilot'',
     ''#.*[Cc]opilot [Gg]enerated'',
     ''#.*[Aa][Ii][-%s]*[Gg]enerated'',
     ''//.*[Cc]opilot'',
     ''@generated'']"

definition realistic_subtle_patterns :: "string list" where
  "realistic_subtle_patterns =
    [''def%s+%w+%(.*%)%s*->%s*[A-Z]%w*:'',
     ''from%s+typing%s+import.*Optional.*Union'',
     ''~~~[%s%S]{100,}?Args:[%s%S]*?Returns:[%s%S]*?~~~'',
     ''try:%s*%n.*?%nexcept%s+%w+Exception%s+as%s+%w+:'']"

definition realistic_initialize_weights :: realistic_weights where
  "realistic_initialize_weights =
     \<lparr> rw_explicit_markers = 0.8,
       rw_subtle_patterns = 0.1,
       rw_length_bonus = 0.05,
       rw_consistency_bonus = 0.05 \<rparr>"

definition RealisticCopilotDetector :: "'c \<Rightarrow> 'c realistic_detector" where
  "RealisticCopilotDetector indicators_config =
     \<lparr> r_config = indicators_config,
       r_explicit_markers = realistic_explicit_markers,
       r_subtle_patterns = realistic_subtle_patterns,
       r_compiled_explicit = map (\<lambda>p. re_compile p [IGNORECASE]) realistic_explicit_markers,
       r_compiled_subtle = map (\<lambda>p. re_compile p [MULTILINE, DOTALL]) realistic_subtle_patterns,
       r_weights = realistic_initialize_weights \<rparr>"

definition startswith :: "string \<Rightarrow> string \<Rightarrow> bool" where
  "startswith s prefix = (take (length prefix) s = prefix)"

definition realistic_analyze_explicit_markers ::
  "re_engine \<Rightarrow> 'c realistic_detector \<Rightarrow> string \<Rightarrow> real" where
  "realistic_analyze_explicit_markers re self content =
     (let marker_count =
            sum_list (map (\<lambda>pattern. length (re pattern content)) (r_compiled_explicit self))
      in min (real marker_count * 0.3) 1)"

definition realistic_analyze_subtle_patterns ::
  "re_engine \<Rightarrow> 'c realistic_detector \<Rightarrow> string \<Rightarrow> nat \<Rightarrow> py_error + real" where
  "realistic_analyze_subtle_patterns re self content code_lines =
     (if code_lines < 10 then Inr 0
      else
        let pattern_matches =
              sum_list (map (\<lambda>pattern. length (re pattern content)) (r_compiled_subtle self))
        in case truediv (real pattern_matches) (real code_lines / 20) of
             Inl e \<Rightarrow> Inl e
           | Inr q \<Rightarrow> (let normalized_score = min q 0.5 in Inr (normalized_score * 0.2)))"

definition realistic_apply_realistic_thresholds :: "real \<Rightarrow> nat \<Rightarrow> bool \<Rightarrow> real" where
  "realistic_apply_realistic_thresholds confidence total_lines has_explicit =
     (if has_explicit then min confidence 0.95
      else
        let confidence = (if total_lines < 30 then confidence * 0.3
                          else if total_lines < 100 then confidence * 0.5
                          else confidence);
            confidence = (if confidence > 0.1 then min (confidence * 0.4) 0.08 else confidence);
            confidence = (if confidence < 0.02 then 0 else confidence)
        in confidence)"

definition realistic_calculate_risk_level :: "real \<Rightarrow> bool \<Rightarrow> risk" where
  "realistic_calculate_risk_level confidence has_explicit =
     (if has_explicit \<and> confidence > 0.7 then VERY_HIGH
      else if confidence > 0.3 then HIGH
      else if confidence > 0.05 then LOW
      else MINIMAL)"

definition realistic_generate_explanation :: "real \<Rightarrow> real \<Rightarrow> real \<Rightarrow> message list" where
  "realistic_generate_explanation confidence explicit subtle =
     [if explicit > 0 then MsgPct ''Explicit AI markers detected ('' explicit '' confidence)''
      else if subtle > 0 then MsgPct ''Subtle AI patterns detected ('' subtle '' confidence)''
      else Msg ''No clear AI indicators found''] @
     [if confidence > 0.05 then MsgPct ''Overall confidence: '' confidence []
      else Msg ''Confidence below detection threshold'']"

definition realistic_detect_language :: "string \<Rightarrow> string" where
  "realistic_detect_language file_extension =
     (case map_of
        [(''.py'', ''python''), (''.js'', ''javascript''), (''.ts'', ''typescript''),
         (''.java'', ''java''), (''.cpp'', ''cpp''), (''.c'', ''c''), (''.go'', ''go''),
         (''.rs'', ''rust'')]
        (str_lower file_extension) of
        Some l \<Rightarrow> l
      | None \<Rightarrow> ''unknown'')"

definition realistic_create_empty_analysis :: realistic_analysis where
  "realistic_create_empty_analysis =
     \<lparr> confidence_score = 0,
       estimated_lines = 0,
       total_analyzed_lines = 0,
       risk_level = MINIMAL,
       language = ''unknown'',
       r_indicators =
         \<lparr> rind_explicit_markers = False,
           rind_subtle_patterns = False,
           rind_file_complexity = False \<rparr>,
       r_detailed_scores =
         \<lparr> rds_explicit_markers = 0,
           rds_subtle_patterns = 0,
           rds_final_confidence = 0 \<rparr>,
       r_analysis_explanation = [Msg ''Empty or invalid file''] \<rparr>"

definition realistic_analyze_content ::
  "re_engine \<Rightarrow> 'c realistic_detector \<Rightarrow> string \<Rightarrow> string \<Rightarrow> py_error + realistic_analysis" where
  "realistic_analyze_content re self content file_extension =
     (if strip content = [] then Inr realistic_create_empty_analysis
      else
        let lines = split nl content;
            total_lines = length lines;
            code_lines = length (filter (\<lambda>line. strip line \<noteq> [] \<and>
                                           \<not> startswith (strip line) ''#'') lines);
            explicit_score = realistic_analyze_explicit_markers re self content
        in
        case (if explicit_score = 0
              then realistic_analyze_subtle_patterns re self content code_lines
              else Inr 0) of
          Inl e \<Rightarrow> Inl e
        | Inr subtle_score \<Rightarrow>
          (let confidence =
                 explicit_score * rw_explicit_markers (r_weights self) +
                 subtle_score * rw_subtle_patterns (r_weights self);
               confidence =
                 realistic_apply_realistic_thresholds confidence total_lines (explicit_score > 0);
               risk_level = realistic_calculate_risk_level confidence (explicit_score > 0);
               estimated_lines =
                 (if confidence > 0.02 then py_int (real total_lines * confidence) else 0)
           in Inr
             \<lparr> confidence_score = confidence,
               estimated_lines = estimated_lines,
               total_analyzed_lines = total_lines,
               risk_level = risk_level,
               language = realistic_detect_language file_extension,
               r_indicators =
                 \<lparr> rind_explicit_markers = (explicit_score > 0),
                   rind_subtle_patterns = (subtle_score > 0.1),
                   rind_file_complexity = (code_lines > 50) \<rparr>,
               r_detailed_scores =
                 \<lparr> rds_explicit_markers = explicit_score,
                   rds_subtle_patterns = subtle_score,
                   rds_final_confidence = confidence \<rparr>,
               r_analysis_explanation =
                 realistic_generate_explanation confidence explicit_score subtle_score \<rparr>))"

section \<open>The conservative detector\<close>

record 'c conservative_detector =
  c_config :: 'c
  c_explicit_ai_markers :: "string list"
  c_ai_signatures :: "string list"
  c_compiled_explicit :: "regex list"
  c_compiled_signatures :: "regex list"

record conservative_indicators =
  cind_explicit_ai_markers :: bool
  cind_ai_signatures_detected :: bool
  cind_high_confidence_ai :: bool
  cind_moderate_confidence_ai :: bool
  cind_low_confidence_ai :: bool

record conservative_scores =
  cds_explicit_markers :: nat
  cds_signature_matches :: nat
  cds_total_markers_found :: nat
  cds_confidence_from_markers :: real
  cds_confidence_from_signatures :: real

record conservative_analysis = analysis +
  c_indicators :: conservative_indicators
  c_detailed_scores :: conservative_scores
  c_analysis_notes :: "message list"

definition conservative_explicit_ai_markers :: "string list" where
  "conservative_explicit_ai_markers =
    [''@generated%s*$'',
     ''#%s*@generated%s*$'',
     ''//%s*@generated%s*$'',
     ''/%*%s*@generated%s*%*/'',
     ''This%s+code%s+was%s+generated%s+by'',
     ''Auto-generated%s+by'',
     ''Generated%s+on%s+%d{4}-%d{2}-%d{2}'']"

definition conservative_ai_signatures :: "string list" where
  "conservative_ai_signatures =
    [''def%s+%w+%(.*%)%s*->%s*Optional%[.*%]:%s*%n%s*~~~.+?~~~%s*%n%s*try:%s*%n.+?%n%s*except%s+%w+Exception%s+as%s+e:%s*%n%s*logger%.error%(f~.+?{e}~%)%s*%n%s*return%s+None%s*%n%s*finally:'',
     ''#%s*TODO:%s*Implement%s+proper%s+error%s+handling%s*$'',
     ''#%s*FIXME:%s*This%s+is%s+a%s+placeholder%s+implementation%s*$'']"

definition ConservativeCopilotDetector :: "'c \<Rightarrow> 'c conservative_detector" where
  "ConservativeCopilotDetector indicators_config =
     \<lparr> c_config = indicators_config,
       c_explicit_ai_markers = conservative_explicit_ai_markers,
       c_ai_signatures = conservative_ai_signatures,
       c_compiled_explicit =
         map (\<lambda>p. re_compile p [MULTILINE, IGNORECASE]) conservative_explicit_ai_markers,
       c_compiled_signatures =
         map (\<lambda>p. re_compile p [MULTILINE, DOTALL]) conservative_ai_signatures \<rparr>"

definition conservative_count_explicit_markers ::
  "re_engine \<Rightarrow> 'c conservative_detector \<Rightarrow> string \<Rightarrow> nat" where
  "conservative_count_explicit_markers re self content =
     sum_list (map (\<lambda>pattern. length (re pattern content)) (c_compiled_explicit self))"

definition conservative_count_signature_matches ::
  "re_engine \<Rightarrow> 'c conservative_detector \<Rightarrow> string \<Rightarrow> nat" where
  "conservative_count_signature_matches re self content =
     length (filter (\<lambda>pattern. re_search re pattern content) (c_compiled_signatures self))"

definition conservative_calculate_conservative_risk :: "real \<Rightarrow> nat \<Rightarrow> nat \<Rightarrow> risk" where
  "conservative_calculate_conservative_risk confidence explicit_markers signatures =
     (if explicit_markers > 2 \<or> confidence > 0.8 then HIGH
      else if explicit_markers > 0 \<or> confidence > 0.5 then MEDIUM
      else if signatures > 0 \<or> confidence > 0.2 then LOW
      else MINIMAL)"

definition conservative_generate_analysis_notes :: "nat \<Rightarrow> nat \<Rightarrow> real \<Rightarrow> message list" where
  "conservative_generate_analysis_notes explicit_markers signatures confidence =
     (if explicit_markers > 0
        then [MsgInt ''Found '' explicit_markers '' explicit AI generation marker(s)'']
        else []) @
     (if signatures > 0
        then [MsgInt ''Detected '' signatures '' potential AI code signature(s)'']
        else []) @
     [if confidence > 0.8
        then Msg ''High confidence of AI generation based on explicit markers''
      else if confidence > 0.5
        then Msg ''Moderate confidence of AI assistance based on patterns''
      else if confidence > 0.2 then Msg ''Low confidence - may have some AI assistance''
      else Msg ''Appears to be primarily human-written code''] @
     (if explicit_markers = 0 \<and> signatures = 0
        then [Msg ''No clear AI generation markers found'']
        else [])"

definition conservative_detect_language :: "string \<Rightarrow> string" where
  "conservative_detect_language file_extension =
     (case map_of
        [(''.py'', ''python''), (''.js'', ''javascript''), (''.ts'', ''typescript''),
         (''.jsx'', ''javascript''), (''.tsx'', ''typescript''), (''.java'', ''java''),
         (''.cpp'', ''cpp''), (''.c'', ''c''), (''.cs'', ''csharp''), (''.php'', ''php''),
         (''.rb'', ''ruby''), (''.go'', ''go''), (''.rs'', ''rust'')]
        (str_lower file_extension) of
        Some l \<Rightarrow> l
      | None \<Rightarrow> ''unknown'')"

definition conservative_create_empty_analysis :: conservative_analysis where
  "conservative_create_empty_analysis =
     \<lparr> confidence_score = 0,
       estimated_lines = 0,
       total_analyzed_lines = 0,
       risk_level = MINIMAL,
       language = ''unknown'',
       c_indicators =
         \<lparr> cind_explicit_ai_markers = False,
           cind_ai_signatures_detected = False,
           cind_high_confidence_ai = False,
           cind_moderate_confidence_ai = False,
           cind_low_confidence_ai = False \<rparr>,
       c_detailed_scores =
         \<lparr> cds_explicit_markers = 0,
           cds_signature_matches = 0,
           cds_total_markers_found = 0,
           cds_confidence_from_markers = 0,
           cds_confidence_from_signatures = 0 \<rparr>,
       c_analysis_notes = [Msg ''Empty file - no analysis possible''] \<rparr>"

text \<open>The conservative detector has no partial operation: its result is a plain value.\<close>

definition conservative_analyze_content ::
  "re_engine \<Rightarrow> 'c conservative_detector \<Rightarrow> string \<Rightarrow> string \<Rightarrow> conservative_analysis" where
  "conservative_analyze_content re self content file_extension =
     (if strip content = [] then conservative_create_empty_analysis
      else
        let lines = filter (\<lambda>line. strip line \<noteq> []) (split nl content);
            total_lines = length lines
        in
        if total_lines = 0 then conservative_create_empty_analysis
        else
          let explicit_markers = conservative_count_explicit_markers re self content;
              signature_matches = conservative_count_signature_matches re self content;
              confidence_score = 0;
              confidence_score =
                (if explicit_markers > 0 then min (real explicit_markers * 0.3) 0.9
                 else confidence_score);
              confidence_score =
                (if signature_matches > 0
                 then confidence_score + min (real signature_matches * 0.1) 0.2
                 else confidence_score);
              confidence_score = min confidence_score 0.95;
              risk_level =
                conservative_calculate_conservative_risk confidence_score explicit_markers
                  signature_matches;
              estimated_ai_lines =
                (if confidence_score > 0.7
                 then py_int (real total_lines * confidence_score * 0.5) else 0)
          in \<lparr> confidence_score = confidence_score,
               estimated_lines = estimated_ai_lines,
               total_analyzed_lines = total_lines,
               risk_level = risk_level,
               language = conservative_detect_language file_extension,
               c_indicators =
                 \<lparr> cind_explicit_ai_markers = (explicit_markers > 0),
                   cind_ai_signatures_detected = (signature_matches > 0),
                   cind_high_confidence_ai = (confidence_score > 0.8),
                   cind_moderate_confidence_ai = (0.5 < confidence_score \<and> confidence_score \<le> 0.8),
                   cind_low_confidence_ai = (0.2 < confidence_score \<and> confidence_score \<le> 0.5) \<rparr>,
               c_detailed_scores =
                 \<lparr> cds_explicit_markers = explicit_markers,
                   cds_signature_matches = signature_matches,
                   cds_total_markers_found = explicit_markers + signature_matches,
                   cds_confidence_from_markers = min (real explicit_markers * 0.3) 0.9,
                   cds_confidence_from_signatures = min (real signature_matches * 0.1) 0.2 \<rparr>,
               c_analysis_notes =
                 conservative_generate_analysis_notes explicit_markers signature_matches
                   confidence_score \<rparr>)"

section \<open>The metrics calculator\<close>








section \<open>Program points and properties named in the statements\<close>

text \<open>
  The value that \<^verbatim>\<open>analyze_content\<close> of the balanced detector passes to
  \<^verbatim>\<open>_apply_realistic_thresholds\<close>: the weighted sum of the scores plus the human
  penalty, cut at zero.
\<close>

definition balanced_weighted_confidence ::
  "'c balanced_detector \<Rightarrow> real \<Rightarrow> real \<Rightarrow> real \<Rightarrow> real \<Rightarrow> real \<Rightarrow> real" where
  "balanced_weighted_confidence self strong_score moderate_score weak_score consistency_score
       human_score =
     max 0 (strong_score * w_strong_indicators (weights self) +
            moderate_score * w_moderate_indicators (weights self) +
            weak_score * w_weak_indicators (weights self) +
            consistency_score * w_consistency_bonus (weights self) +
            (if human_score > 0.85
             then (human_score - 0.85) * w_human_penalty (weights self) else 0))"

text \<open>
  The value of \<^verbatim>\<open>confidence\<close> in \<^verbatim>\<open>_apply_realistic_thresholds\<close> when control
  reaches the noise-floor test (balanced: after the size dampening and the mid-range
  scaling; realistic: after the size dampening and the cap, or the value returned early
  when an explicit marker was found).
\<close>

definition balanced_pre_floor :: "real \<Rightarrow> nat \<Rightarrow> real" where
  "balanced_pre_floor confidence total_lines =
     (let confidence = (if total_lines < 20 then confidence * 0.5
                        else if total_lines < 50 then confidence * 0.7
                        else confidence);
          confidence = (if confidence > 0.25 \<and> total_lines > 30
                        then min (confidence * 0.75) 0.40 else confidence)
      in confidence)"


text \<open>
  The confidence that \<^verbatim>\<open>analyze_content\<close> of the conservative detector computes
  from its two counts.
\<close>

definition conservative_confidence :: "nat \<Rightarrow> nat \<Rightarrow> real" where
  "conservative_confidence explicit_markers signature_matches =
     (let confidence_score = 0;
          confidence_score =
            (if explicit_markers > 0 then min (real explicit_markers * 0.3) 0.9
             else confidence_score);
          confidence_score =
            (if signature_matches > 0
             then confidence_score + min (real signature_matches * 0.1) 0.2
             else confidence_score)
      in min confidence_score 0.95)"

text \<open>The range property of a result: a confidence in \<open>[0, 1]\<close> and an estimate
  between zero and the number of analysed lines.\<close>

definition result_in_range :: "'a analysis_scheme \<Rightarrow> bool" where
  "result_in_range r =
     (0 \<le> confidence_score r \<and> confidence_score r \<le> 1 \<and>
      0 \<le> estimated_lines r \<and> estimated_lines r \<le> int (total_analyzed_lines r))"

subsection \<open>The indentation feature as the specification words it\<close>

definition consecutive_differences :: "nat list \<Rightarrow> int list" where
  "consecutive_differences levels = map (\<lambda>(a, b). int b - int a) (zip levels (tl levels))"

definition all_equal :: "int list \<Rightarrow> bool" where
  "all_equal ds = (\<forall>d \<in> set ds. \<forall>e \<in> set ds. d = e)"

definition indentation_consistency_spec :: "nat list \<Rightarrow> real" where
  "indentation_consistency_spec indents =
     (let levels = sort (remdups indents) in
      if length levels \<le> 1 \<or> all_equal (consecutive_differences levels) then 1
      else min 1 (max 0 (1 - statistics_variance (map real indents) /
                             real (Max (set indents) + 1))))"

section \<open>Concrete inputs\<close>

text \<open>
  Four source texts and the answers of Python's \<^verbatim>\<open>re\<close> on them. \<open>sample_small\<close> is
  three lines, the last one carrying one explicit marker; \<open>sample_long\<close> is the same text
  with 28 lines of body, 31 lines in all. The \<open>marked\<close> variants append a second
  explicit marker, \<^verbatim>\<open>@generated\<close>, to the last line. On these texts, on the text
  \<open>pass\<close> and on a text of blanks, every pattern of the three detectors that is not
  listed in \<open>python_re\<close> has no match.
\<close>

definition join_lines :: "string list \<Rightarrow> string" where
  "join_lines ls = (case ls of [] \<Rightarrow> [] | l # rest \<Rightarrow> l @ concat (map (\<lambda>x. nl # x) rest))"

definition sample_small :: string where
  "sample_small = join_lines
     [''from typing import Dict, Any'',
      ''def build_it() -> List[int]:'',
      ''Auto-generated by hand'']"

definition sample_long :: string where
  "sample_long = join_lines
     ([''from typing import Dict, Any'',
       ''def build_it() -> List[int]:''] @
      replicate 28 ''    pass'' @
      [''Auto-generated by hand''])"

definition sample_small_marked :: string where
  "sample_small_marked = sample_small @ '' @generated''"

definition sample_long_marked :: string where
  "sample_long_marked = sample_long @ '' @generated''"

definition python_re :: re_engine where
  "python_re pattern content =
     (case pattern of Regex p flags \<Rightarrow>
        if p = ''Auto-generated%s+by'' then
          (if content \<in> set [sample_small, sample_small_marked, sample_long, sample_long_marked]
           then [''Auto-generated by''] else [])
        else if p = ''@generated%s*$'' \<or> p = ''@generated'' then
          (if content \<in> set [sample_small_marked, sample_long_marked]
           then [''@generated''] else [])
        else if p = ''def%s+%w+%([^)]*%)%s*->%s*(Optional%[|Union%[|List%[|Dict%[)'' then
          (if content \<in> set [sample_small, sample_small_marked, sample_long, sample_long_marked]
           then [''List[''] else [])
        else if p = ''from%s+typing%s+import%s+.*Dict.*Any'' then
          (if content \<in> set [sample_small, sample_small_marked, sample_long, sample_long_marked]
           then [''from typing import Dict, Any''] else [])
        else if p = ''def%s+(%w+)%('' then
          (if content \<in> set [sample_small, sample_small_marked, sample_long, sample_long_marked]
           then [''build_it''] else [])
        else [])"

text \<open>The four fields of a result that the claims are about.\<close>

definition core :: "'a analysis_scheme \<Rightarrow> real \<times> int \<times> nat \<times> risk" where
  "core r = (confidence_score r, estimated_lines r, total_analyzed_lines r, risk_level r)"

section \<open>Auxiliary facts\<close>

subsection \<open>Strings and numbers\<close>

lemma split_not_Nil: "split sep s \<noteq> []"
  by (induction s) (auto split: list.splits)

lemma length_split_pos: "0 < length (split sep s)"
  using split_not_Nil [of sep s] by simp

lemma split_covers:
  "c \<in> set s \<Longrightarrow> c \<noteq> sep \<Longrightarrow> \<exists>piece \<in> set (split sep s). c \<in> set piece"
proof (induction s)
  case Nil
  then show ?case by simp
next
  case (Cons a s)
  obtain p ps where ps: "split sep s = p # ps"
    using split_not_Nil [of sep s] by (cases "split sep s") auto
  show ?case
  proof (cases "c = a")
    case True
    then show ?thesis using Cons.prems ps by auto
  next
    case False
    then have "c \<in> set s" using Cons.prems by simp
    then obtain q where "q \<in> set (split sep s)" "c \<in> set q"
      using Cons.IH Cons.prems by blast
    then show ?thesis using ps by (cases "a = sep") auto
  qed
qed

lemma rstrip_Nil_iff: "rstrip s = [] \<longleftrightarrow> (\<forall>c \<in> set s. isspace c)"
  by (simp add: rstrip_def dropWhile_eq_Nil_conv)

lemma strip_Nil_iff: "strip s = [] \<longleftrightarrow> (\<forall>c \<in> set s. isspace c)"
proof
  assume "\<forall>c \<in> set s. isspace c"
  then have "rstrip s = []" by (simp add: rstrip_Nil_iff)
  then show "strip s = []" by (simp add: strip_def lstrip_def)
next
  assume a: "strip s = []"
  have "rstrip s = []"
  proof (rule ccontr)
    assume n: "rstrip s \<noteq> []"
    let ?d = "dropWhile isspace (rev s)"
    from n have d: "?d \<noteq> []" by (simp add: rstrip_def)
    then have "\<not> isspace (hd ?d)" by (rule hd_dropWhile)
    moreover have "hd ?d \<in> set (rstrip s)" using d by (simp add: rstrip_def)
    moreover from a have "\<forall>c \<in> set (rstrip s). isspace c"
      by (simp add: strip_def lstrip_def dropWhile_eq_Nil_conv)
    ultimately show False by blast
  qed
  then show "\<forall>c \<in> set s. isspace c" by (simp add: rstrip_Nil_iff)
qed

lemma isspace_nl: "isspace nl"
  by (simp add: isspace_def nl_def)

lemma some_line_not_blank:
  assumes "strip content \<noteq> []"
  shows "filter (\<lambda>line. strip line \<noteq> []) (split nl content) \<noteq> []"
proof -
  from assms obtain c where c: "c \<in> set content" "\<not> isspace c"
    by (auto simp add: strip_Nil_iff)
  then have "c \<noteq> nl" using isspace_nl by auto
  then obtain piece where p: "piece \<in> set (split nl content)" "c \<in> set piece"
    using split_covers c(1) by blast
  then have "strip piece \<noteq> []" using c(2) by (auto simp add: strip_Nil_iff)
  then show ?thesis using p(1) by (auto simp add: filter_empty_conv)
qed

lemma truediv_Inr: "b \<noteq> 0 \<Longrightarrow> truediv a b = Inr (a / b)"
  by (simp add: truediv_def)


lemma py_int_range:
  assumes "0 \<le> c" "c \<le> 1"
  shows "0 \<le> py_int (real n * c) \<and> py_int (real n * c) \<le> int n"
proof -
  have a: "0 \<le> real n * c" using assms by simp
  have "real n * c \<le> real n" using assms by (simp add: mult_left_le)
  then have "\<lfloor>real n * c\<rfloor> \<le> int n" by (simp add: floor_le_iff)
  then show ?thesis using a by (simp add: py_int_def)
qed

subsection \<open>The balanced detector returns, and what it returns\<close>

lemma balanced_moderate_loop_Inr:
  "\<exists>r. balanced_moderate_loop re content cats acc = Inr r"
proof (induction cats arbitrary: acc)
  case Nil
  then show ?case by simp
next
  case (Cons c cats)
  obtain category patterns where c: "c = (category, patterns)" by (cases c)
  obtain t m where acc: "acc = (t, m)" by (cases acc)
  have "real (length (split nl content)) / 10 \<noteq> 0"
    using length_split_pos [of nl content] by simp
  then show ?case
    using Cons.IH by (simp add: c acc truediv_Inr Let_def)
qed

lemma balanced_moderate_Inr:
  "\<exists>v. balanced_analyze_moderate_indicators re self content = Inr v"
proof -
  obtain r where "balanced_moderate_loop re content (compiled_moderate self) (0, 0) = Inr r"
    using balanced_moderate_loop_Inr by blast
  then show ?thesis
    by (cases r) (simp add: balanced_analyze_moderate_indicators_def)
qed

lemma balanced_weak_Inr:
  "\<exists>v. balanced_analyze_weak_indicators re self content = Inr v"
proof -
  have "real (length (split nl content)) / 20 \<noteq> 0"
    using length_split_pos [of nl content] by simp
  then show ?thesis
    by (simp add: balanced_analyze_weak_indicators_def truediv_Inr Let_def)
qed

lemma balanced_human_Inr:
  "\<exists>v. balanced_analyze_human_patterns re self content = Inr v"
proof -
  have "real (length (split nl content)) / 30 \<noteq> 0"
    using length_split_pos [of nl content] by simp
  then show ?thesis
    by (simp add: balanced_analyze_human_patterns_def truediv_Inr Let_def)
qed

lemma balanced_analyze_content_empty:
  assumes "strip content = []"
  shows "balanced_analyze_content re self content ext = Inr balanced_create_empty_analysis"
  using assms unfolding balanced_analyze_content_def by simp

lemma balanced_analyze_content_nonempty:
  assumes "strip content \<noteq> []"
  shows "\<exists>r m w h.
      balanced_analyze_content re self content ext = Inr r \<and>
      balanced_analyze_moderate_indicators re self content = Inr m \<and>
      balanced_analyze_weak_indicators re self content = Inr w \<and>
      balanced_analyze_human_patterns re self content = Inr h \<and>
      total_analyzed_lines r = length (filter (\<lambda>line. strip line \<noteq> []) (split nl content)) \<and>
      0 < total_analyzed_lines r \<and>
      ds_strong_indicators (detailed_scores r) =
        balanced_analyze_strong_indicators re self content \<and>
      ds_moderate_indicators (detailed_scores r) = m \<and>
      ds_weak_indicators (detailed_scores r) = w \<and>
      ds_consistency_score (detailed_scores r) =
        balanced_analyze_consistency re content
          (filter (\<lambda>line. strip line \<noteq> []) (split nl content)) \<and>
      ds_human_patterns (detailed_scores r) = h \<and>
      confidence_score r =
        balanced_apply_realistic_thresholds
          (balanced_weighted_confidence self
             (ds_strong_indicators (detailed_scores r))
             (ds_moderate_indicators (detailed_scores r))
             (ds_weak_indicators (detailed_scores r))
             (ds_consistency_score (detailed_scores r))
             (ds_human_patterns (detailed_scores r)))
          (total_analyzed_lines r) \<and>
      estimated_lines r =
        (if confidence_score r > 0.05
         then py_int (real (total_analyzed_lines r) * confidence_score r) else 0) \<and>
      risk_level r =
        balanced_calculate_balanced_risk (confidence_score r)
          (ds_strong_indicators (detailed_scores r))
          (ds_moderate_indicators (detailed_scores r))"
proof -
  obtain m where m: "balanced_analyze_moderate_indicators re self content = Inr m"
    using balanced_moderate_Inr by blast
  obtain w where w: "balanced_analyze_weak_indicators re self content = Inr w"
    using balanced_weak_Inr by blast
  obtain h where h: "balanced_analyze_human_patterns re self content = Inr h"
    using balanced_human_Inr by blast
  have l: "filter (\<lambda>line. strip line \<noteq> []) (split nl content) \<noteq> []"
    using assms by (rule some_line_not_blank)
  show ?thesis
    using assms l unfolding balanced_analyze_content_def balanced_weighted_confidence_def
    by (simp add: m w h Let_def)
qed

lemma clamp_range: "0 \<le> min (max x 0) (0.75::real) \<and> min (max x 0) 0.75 \<le> 0.75"
  by simp

lemma balanced_thresholds_range:
  "0 \<le> balanced_apply_realistic_thresholds c n \<and>
   balanced_apply_realistic_thresholds c n \<le> 0.75"
  unfolding balanced_apply_realistic_thresholds_def Let_def
  by (rule clamp_range)

lemma balanced_result_cases:
  obtains
    (empty) "strip content = []"
      "balanced_analyze_content re self content ext = Inr balanced_create_empty_analysis"
  | (scored) r where "strip content \<noteq> []"
      "balanced_analyze_content re self content ext = Inr r"
      "0 < total_analyzed_lines r"
      "confidence_score r =
        balanced_apply_realistic_thresholds
          (balanced_weighted_confidence self
             (ds_strong_indicators (detailed_scores r))
             (ds_moderate_indicators (detailed_scores r))
             (ds_weak_indicators (detailed_scores r))
             (ds_consistency_score (detailed_scores r))
             (ds_human_patterns (detailed_scores r)))
          (total_analyzed_lines r)"
      "estimated_lines r =
        (if confidence_score r > 0.05
         then py_int (real (total_analyzed_lines r) * confidence_score r) else 0)"
      "risk_level r =
        balanced_calculate_balanced_risk (confidence_score r)
          (ds_strong_indicators (detailed_scores r))
          (ds_moderate_indicators (detailed_scores r))"
proof (cases "strip content = []")
  case True
  then show ?thesis using empty balanced_analyze_content_empty by blast
next
  case False
  from balanced_analyze_content_nonempty [OF False, of re self ext]
  show ?thesis using scored False by blast
qed

lemma balanced_in_range:
  "\<exists>r. balanced_analyze_content re self content ext = Inr r \<and> result_in_range r \<and>
       confidence_score r \<le> 0.75"
proof (cases rule: balanced_result_cases [of content re self ext])
  case empty
  then show ?thesis
    by (simp add: balanced_create_empty_analysis_def result_in_range_def)
next
  case (scored r)
  have c: "0 \<le> confidence_score r \<and> confidence_score r \<le> 0.75"
    using scored(4) balanced_thresholds_range by simp
  then have "0 \<le> confidence_score r" "confidence_score r \<le> 1" by simp_all
  then have "0 \<le> py_int (real (total_analyzed_lines r) * confidence_score r) \<and>
      py_int (real (total_analyzed_lines r) * confidence_score r) \<le> int (total_analyzed_lines r)"
    by (rule py_int_range)
  then have "0 \<le> estimated_lines r \<and> estimated_lines r \<le> int (total_analyzed_lines r)"
    using scored(5) by simp
  then show ?thesis using scored(2) c by (simp add: result_in_range_def)
qed

subsection \<open>The realistic detector returns, and what it returns\<close>

lemma realistic_explicit_range:
  "0 \<le> realistic_analyze_explicit_markers re self content \<and>
   realistic_analyze_explicit_markers re self content \<le> 1"
  by (simp add: realistic_analyze_explicit_markers_def Let_def)

lemma realistic_explicit_step:
  assumes "realistic_analyze_explicit_markers re self content \<noteq> 0"
  shows "0.3 \<le> realistic_analyze_explicit_markers re self content"
proof -
  define k where
    "k = sum_list (map (\<lambda>pattern. length (re pattern content)) (r_compiled_explicit self))"
  have e: "realistic_analyze_explicit_markers re self content = min (real k * 0.3) 1"
    by (simp add: realistic_analyze_explicit_markers_def k_def)
  have "k \<noteq> 0"
  proof
    assume "k = 0"
    then have "realistic_analyze_explicit_markers re self content = 0"
      using e by simp
    then show False using assms by simp
  qed
  then have "1 \<le> real k" by simp
  then have "0.3 \<le> real k * 0.3" by simp
  then show ?thesis using e by simp
qed

lemma realistic_subtle_Inr:
  "\<exists>v. realistic_analyze_subtle_patterns re self content n = Inr v \<and> 0 \<le> v \<and> v \<le> 0.1"
proof (cases "n < 10")
  case True
  then show ?thesis by (simp add: realistic_analyze_subtle_patterns_def)
next
  case False
  then have d: "real n / 20 \<noteq> 0" by simp
  define q where "q = real (sum_list (map (\<lambda>pattern. length (re pattern content))
                 (r_compiled_subtle self))) / (real n / 20)"
  have "0 \<le> q" by (simp add: q_def)
  then have b: "0 \<le> min q 0.5 * 0.2 \<and> min q 0.5 * 0.2 \<le> 0.1" by simp
  have "realistic_analyze_subtle_patterns re self content n = Inr (min q 0.5 * 0.2)"
    unfolding realistic_analyze_subtle_patterns_def Let_def q_def
    using False by (simp only: if_False truediv_Inr [OF d] sum.case)
  then show ?thesis using b by blast
qed

lemma realistic_analyze_content_empty:
  assumes "strip content = []"
  shows "realistic_analyze_content re self content ext = Inr realistic_create_empty_analysis"
  using assms unfolding realistic_analyze_content_def by simp

lemma realistic_analyze_content_nonempty:
  assumes "strip content \<noteq> []"
  shows "\<exists>r.
      realistic_analyze_content re self content ext = Inr r \<and>
      total_analyzed_lines r = length (split nl content) \<and>
      0 < total_analyzed_lines r \<and>
      rds_explicit_markers (r_detailed_scores r) =
        realistic_analyze_explicit_markers re self content \<and>
      0 \<le> rds_subtle_patterns (r_detailed_scores r) \<and>
      rds_subtle_patterns (r_detailed_scores r) \<le> 0.1 \<and>
      (rds_explicit_markers (r_detailed_scores r) = 0 \<or>
       rds_subtle_patterns (r_detailed_scores r) = 0) \<and>
      confidence_score r =
        realistic_apply_realistic_thresholds
          (rds_explicit_markers (r_detailed_scores r) * rw_explicit_markers (r_weights self) +
           rds_subtle_patterns (r_detailed_scores r) * rw_subtle_patterns (r_weights self))
          (total_analyzed_lines r)
          (rds_explicit_markers (r_detailed_scores r) > 0) \<and>
      estimated_lines r =
        (if confidence_score r > 0.02
         then py_int (real (total_analyzed_lines r) * confidence_score r) else 0) \<and>
      risk_level r =
        realistic_calculate_risk_level (confidence_score r)
          (rds_explicit_markers (r_detailed_scores r) > 0)"
proof (cases "realistic_analyze_explicit_markers re self content = 0")
  case True
  let ?n = "length (filter (\<lambda>line. strip line \<noteq> [] \<and> \<not> startswith (strip line) ''#'')
                       (split nl content))"
  obtain v where v: "realistic_analyze_subtle_patterns re self content ?n = Inr v"
      "0 \<le> v" "v \<le> 0.1"
    using realistic_subtle_Inr by blast
  show ?thesis
    using assms True v length_split_pos [of nl content]
    unfolding realistic_analyze_content_def
    by (simp add: Let_def)
next
  case False
  show ?thesis
    using assms False length_split_pos [of nl content]
    unfolding realistic_analyze_content_def
    by (simp add: Let_def)
qed

lemma realistic_thresholds_range:
  assumes "0 \<le> c"
  shows "0 \<le> realistic_apply_realistic_thresholds c n has \<and>
         realistic_apply_realistic_thresholds c n has \<le> 0.95"
proof (cases has)
  case True
  then show ?thesis using assms by (simp add: realistic_apply_realistic_thresholds_def)
next
  case False
  define c1 where "c1 = (if n < 30 then c * 0.3 else if n < 100 then c * 0.5 else c)"
  define c2 where "c2 = (if c1 > 0.1 then min (c1 * 0.4) 0.08 else c1)"
  have 1: "0 \<le> c1" using assms by (simp add: c1_def)
  have m: "min (c1 * 0.4) 0.08 \<le> (0.08::real)" by (rule min.cobounded2)
  have 2: "0 \<le> c2 \<and> c2 \<le> 0.1"
  proof (cases "c1 > 0.1")
    case True
    then have "c2 = min (c1 * 0.4) 0.08" by (simp only: c2_def if_True)
    then show ?thesis using m 1 by simp
  next
    case False
    then have "c2 = c1" by (simp only: c2_def if_False)
    then show ?thesis using False 1 by simp
  qed
  have "realistic_apply_realistic_thresholds c n has = (if c2 < 0.02 then 0 else c2)"
    unfolding realistic_apply_realistic_thresholds_def c2_def c1_def Let_def
    using False by (simp only: if_False)
  then show ?thesis using 2 by simp
qed

lemma realistic_result_cases:
  obtains
    (empty) "strip content = []"
      "realistic_analyze_content re (RealisticCopilotDetector cfg) content ext =
         Inr realistic_create_empty_analysis"
  | (scored) r where "strip content \<noteq> []"
      "realistic_analyze_content re (RealisticCopilotDetector cfg) content ext = Inr r"
      "0 < total_analyzed_lines r"
      "0 \<le> rds_explicit_markers (r_detailed_scores r)"
      "rds_explicit_markers (r_detailed_scores r) = 0 \<or>
         0.3 \<le> rds_explicit_markers (r_detailed_scores r) \<and>
         rds_subtle_patterns (r_detailed_scores r) = 0"
      "0 \<le> rds_subtle_patterns (r_detailed_scores r)"
      "confidence_score r =
        realistic_apply_realistic_thresholds
          (rds_explicit_markers (r_detailed_scores r) * 0.8 +
           rds_subtle_patterns (r_detailed_scores r) * 0.1)
          (total_analyzed_lines r)
          (rds_explicit_markers (r_detailed_scores r) > 0)"
      "estimated_lines r =
        (if confidence_score r > 0.02
         then py_int (real (total_analyzed_lines r) * confidence_score r) else 0)"
      "risk_level r =
        realistic_calculate_risk_level (confidence_score r)
          (rds_explicit_markers (r_detailed_scores r) > 0)"
proof (cases "strip content = []")
  case True
  then show ?thesis using empty realistic_analyze_content_empty by blast
next
  case False
  let ?d = "RealisticCopilotDetector cfg"
  have w: "rw_explicit_markers (r_weights ?d) = 0.8" "rw_subtle_patterns (r_weights ?d) = 0.1"
    by (simp_all add: RealisticCopilotDetector_def realistic_initialize_weights_def)
  from realistic_analyze_content_nonempty [OF False, of re ?d ext]
  obtain r where r: "realistic_analyze_content re ?d content ext = Inr r"
      "0 < total_analyzed_lines r"
      "rds_explicit_markers (r_detailed_scores r) =
        realistic_analyze_explicit_markers re ?d content"
      "0 \<le> rds_subtle_patterns (r_detailed_scores r)"
      "rds_explicit_markers (r_detailed_scores r) = 0 \<or>
       rds_subtle_patterns (r_detailed_scores r) = 0"
      "confidence_score r =
        realistic_apply_realistic_thresholds
          (rds_explicit_markers (r_detailed_scores r) * rw_explicit_markers (r_weights ?d) +
           rds_subtle_patterns (r_detailed_scores r) * rw_subtle_patterns (r_weights ?d))
          (total_analyzed_lines r)
          (rds_explicit_markers (r_detailed_scores r) > 0)"
      "estimated_lines r =
        (if confidence_score r > 0.02
         then py_int (real (total_analyzed_lines r) * confidence_score r) else 0)"
      "risk_level r =
        realistic_calculate_risk_level (confidence_score r)
          (rds_explicit_markers (r_detailed_scores r) > 0)"
    by blast
  have e0: "0 \<le> rds_explicit_markers (r_detailed_scores r)"
    using r(3) realistic_explicit_range [of re ?d content] by simp
  have e1: "rds_explicit_markers (r_detailed_scores r) = 0 \<or>
         0.3 \<le> rds_explicit_markers (r_detailed_scores r) \<and>
         rds_subtle_patterns (r_detailed_scores r) = 0"
    using r(3) r(5) realistic_explicit_step [of re ?d content] by auto
  show ?thesis
    using scored [OF False r(1) r(2) e0 e1 r(4) _ r(7) r(8)] r(6) w by simp
qed

lemma realistic_in_range:
  "\<exists>r. realistic_analyze_content re (RealisticCopilotDetector cfg) content ext = Inr r \<and>
       result_in_range r"
proof (cases rule: realistic_result_cases [of content re cfg ext])
  case empty
  then show ?thesis
    by (simp add: realistic_create_empty_analysis_def result_in_range_def)
next
  case (scored r)
  have "0 \<le> rds_explicit_markers (r_detailed_scores r) * 0.8 +
           rds_subtle_patterns (r_detailed_scores r) * 0.1"
    using scored(4) scored(6) by simp
  then have c: "0 \<le> confidence_score r \<and> confidence_score r \<le> 0.95"
    using scored(7) realistic_thresholds_range by simp
  then have "0 \<le> confidence_score r" "confidence_score r \<le> 1" by simp_all
  then have "0 \<le> py_int (real (total_analyzed_lines r) * confidence_score r) \<and>
      py_int (real (total_analyzed_lines r) * confidence_score r) \<le> int (total_analyzed_lines r)"
    by (rule py_int_range)
  then have "0 \<le> estimated_lines r \<and> estimated_lines r \<le> int (total_analyzed_lines r)"
    using scored(8) by simp
  then show ?thesis using scored(2) c by (simp add: result_in_range_def)
qed

subsection \<open>What the conservative detector returns\<close>

lemma conservative_analyze_content_empty:
  assumes "strip content = []"
  shows "conservative_analyze_content re self content ext = conservative_create_empty_analysis"
  using assms unfolding conservative_analyze_content_def by simp

lemma conservative_analyze_content_nonempty:
  assumes "strip content \<noteq> []"
  shows "let r = conservative_analyze_content re self content ext in
      total_analyzed_lines r = length (filter (\<lambda>line. strip line \<noteq> []) (split nl content)) \<and>
      0 < total_analyzed_lines r \<and>
      cds_explicit_markers (c_detailed_scores r) =
        conservative_count_explicit_markers re self content \<and>
      cds_signature_matches (c_detailed_scores r) =
        conservative_count_signature_matches re self content \<and>
      confidence_score r =
        conservative_confidence (cds_explicit_markers (c_detailed_scores r))
          (cds_signature_matches (c_detailed_scores r)) \<and>
      estimated_lines r =
        (if confidence_score r > 0.7
         then py_int (real (total_analyzed_lines r) * confidence_score r * 0.5) else 0) \<and>
      risk_level r =
        conservative_calculate_conservative_risk (confidence_score r)
          (cds_explicit_markers (c_detailed_scores r))
          (cds_signature_matches (c_detailed_scores r))"
proof -
  have l: "length (filter (\<lambda>line. strip line \<noteq> []) (split nl content)) \<noteq> 0"
    "0 < length (filter (\<lambda>line. strip line \<noteq> []) (split nl content))"
    using some_line_not_blank [OF assms] by simp_all
  show ?thesis
    unfolding conservative_analyze_content_def conservative_confidence_def Let_def
    by (simp only: assms l if_False analysis.select_convs conservative_analysis.select_convs
        conservative_scores.select_convs simp_thms)
qed



subsection \<open>The noise floor\<close>

lemma balanced_thresholds_via_pre_floor:
  "balanced_apply_realistic_thresholds c n =
     (let p = balanced_pre_floor c n;
          p = (if p < 0.05 then 0 else p);
          p = (if p > 0.6 then 0.6 + (p - 0.6) * 0.5 else p)
      in min (max p 0) 0.75)"
  unfolding balanced_apply_realistic_thresholds_def balanced_pre_floor_def Let_def
  by (rule refl)




subsection \<open>Indentation consistency\<close>

lemma steps_are_consecutive_differences:
  "map (\<lambda>i. int (u ! (i + 1)) - int (u ! i)) [0 ..< length u - 1] = consecutive_differences u"
proof (rule nth_equalityI)
  show "length (map (\<lambda>i. int (u ! (i + 1)) - int (u ! i)) [0 ..< length u - 1]) =
      length (consecutive_differences u)"
    by (simp add: consecutive_differences_def)
next
  fix i
  assume "i < length (map (\<lambda>i. int (u ! (i + 1)) - int (u ! i)) [0 ..< length u - 1])"
  then have i: "i < length u - 1" by simp
  then have "zip u (tl u) ! i = (u ! i, u ! (i + 1))"
    by (simp add: nth_tl)
  then show "map (\<lambda>i. int (u ! (i + 1)) - int (u ! i)) [0 ..< length u - 1] ! i =
      consecutive_differences u ! i"
    using i by (simp add: consecutive_differences_def)
qed

lemma one_distinct_iff_all_equal:
  assumes "ds \<noteq> []"
  shows "length (remdups ds) = 1 \<longleftrightarrow> all_equal ds"
proof
  assume "length (remdups ds) = 1"
  then have "card (set ds) = 1" by (simp add: length_remdups_card_conv)
  then obtain a where "set ds = {a}" by (auto simp add: card_1_singleton_iff)
  then show "all_equal ds" by (simp add: all_equal_def)
next
  assume a: "all_equal ds"
  have "hd ds \<in> set ds" using assms by simp
  then have "set ds = {hd ds}" using a by (auto simp add: all_equal_def)
  then have "card (set ds) = 1" by simp
  then show "length (remdups ds) = 1" by (simp add: length_remdups_card_conv)
qed

lemma statistics_variance_nonneg: "0 \<le> statistics_variance ys"
proof -
  have "0 \<le> sum_list (map (\<lambda>x. (x - sum_list ys / real (length ys))\<^sup>2) ys)"
    by (rule sum_list_nonneg) auto
  then show ?thesis by (simp add: statistics_variance_def Let_def)
qed

lemma statistics_variance_constant:
  assumes "set xs = {a}"
  shows "statistics_variance (map real xs) = 0"
proof -
  have n: "xs \<noteq> []" using assms by auto
  have "\<forall>y \<in> set xs. y = a" using assms by simp
  then have r: "replicate (length xs) a = xs" by (rule replicate_length_same)
  then have m: "map real xs = replicate (length xs) (real a)"
    by (metis map_replicate)
  have s: "sum_list (map real xs) = real (length xs) * real a"
    by (simp only: m sum_list_replicate)
  have mean: "sum_list (map real xs) / real (length (map real xs)) = real a"
    using n by (simp add: s)
  have "map (\<lambda>x. (x - real a)\<^sup>2) (map real xs) = replicate (length xs) 0"
    by (simp add: m)
  then have "sum_list (map (\<lambda>x. (x - real a)\<^sup>2) (map real xs)) = 0"
    by (simp add: sum_list_replicate)
  then show ?thesis
    unfolding statistics_variance_def Let_def mean by simp
qed

subsection \<open>Risk labels\<close>

lemma risk_rank_inj: "risk_rank a = risk_rank b \<Longrightarrow> a = b"
  by (cases a; cases b) simp_all

lemma balanced_risk_mono:
  assumes "c1 \<le> c2" "s1 \<le> s2" "m1 \<le> m2"
  shows "risk_rank (balanced_calculate_balanced_risk c1 s1 m1)
       \<le> risk_rank (balanced_calculate_balanced_risk c2 s2 m2)"
  using assms by (auto simp add: balanced_calculate_balanced_risk_def)

lemma balanced_risk_of_result:
  assumes "balanced_analyze_content re self content ext = Inr r"
  shows "risk_level r =
      balanced_calculate_balanced_risk (confidence_score r)
        (ds_strong_indicators (detailed_scores r))
        (ds_moderate_indicators (detailed_scores r))"
proof (cases rule: balanced_result_cases [of content re self ext])
  case empty
  then have "r = balanced_create_empty_analysis" using assms by simp
  then show ?thesis
    by (simp add: balanced_create_empty_analysis_def balanced_calculate_balanced_risk_def)
next
  case (scored r')
  then have "r' = r" using assms by simp
  then show ?thesis using scored(6) by simp
qed

lemma realistic_risk_step_mono:
  assumes "c1 \<le> c2"
  shows "risk_rank (realistic_calculate_risk_level c1 True)
       \<le> risk_rank (realistic_calculate_risk_level c2 True)"
  using assms by (auto simp add: realistic_calculate_risk_level_def)

lemma realistic_no_marker_confidence:
  assumes "0 \<le> c"
  shows "realistic_apply_realistic_thresholds c n False \<le> 0.1"
proof -
  define c1 where "c1 = (if n < 30 then c * 0.3 else if n < 100 then c * 0.5 else c)"
  define c2 where "c2 = (if c1 > 0.1 then min (c1 * 0.4) 0.08 else c1)"
  have m: "min (c1 * 0.4) 0.08 \<le> (0.08::real)" by (rule min.cobounded2)
  have 2: "c2 \<le> 0.1"
  proof (cases "c1 > 0.1")
    case True
    then have "c2 = min (c1 * 0.4) 0.08" by (simp only: c2_def if_True)
    then show ?thesis using m by simp
  next
    case False
    then have "c2 = c1" by (simp only: c2_def if_False)
    then show ?thesis using False by simp
  qed
  have "realistic_apply_realistic_thresholds c n False = (if c2 < 0.02 then 0 else c2)"
    unfolding realistic_apply_realistic_thresholds_def c2_def c1_def Let_def
    by (simp only: if_False)
  then show ?thesis using 2 by simp
qed

lemma realistic_risk_of_result:
  assumes "realistic_analyze_content re (RealisticCopilotDetector cfg) content ext = Inr r"
  shows "risk_level r = realistic_calculate_risk_level (confidence_score r) True"
proof (cases rule: realistic_result_cases [of content re cfg ext])
  case empty
  then have "r = realistic_create_empty_analysis" using assms by simp
  then show ?thesis
    by (simp add: realistic_create_empty_analysis_def realistic_calculate_risk_level_def)
next
  case (scored r')
  then have eq: "r' = r" using assms by simp
  let ?e = "rds_explicit_markers (r_detailed_scores r)"
  let ?s = "rds_subtle_patterns (r_detailed_scores r)"
  show ?thesis
  proof (cases "?e > 0")
    case True
    then show ?thesis using scored(9) eq by simp
  next
    case False
    then have f: "(?e > 0) = False" by simp
    have e0: "?e = 0" using False scored(4) eq by simp
    have "0 \<le> ?e * 0.8 + ?s * 0.1" using e0 scored(6) eq by simp
    then have "realistic_apply_realistic_thresholds (?e * 0.8 + ?s * 0.1)
        (total_analyzed_lines r) False \<le> 0.1"
      by (rule realistic_no_marker_confidence)
    then have "confidence_score r \<le> 0.1" using scored(7) eq f by simp
    then have "realistic_calculate_risk_level (confidence_score r) False =
        realistic_calculate_risk_level (confidence_score r) True"
      by (simp add: realistic_calculate_risk_level_def)
    then show ?thesis using scored(9) eq f by simp
  qed
qed

lemma conservative_confidence_values:
  "conservative_confidence e s =
     min ((if e = 0 then 0 else if e = 1 then 0.3 else if e = 2 then 0.6 else 0.9) +
          (if s = 0 then 0 else if s = 1 then 0.1 else 0.2)) 0.95"
proof -
  have a: "(if e > 0 then min (real e * 0.3) 0.9 else 0) =
      (if e = 0 then 0 else if e = 1 then 0.3 else if e = 2 then 0.6 else (0.9::real))"
  proof -
    consider "e = 0" | "e = 1" | "e = 2" | "3 \<le> e" by linarith
    then show ?thesis
    proof cases
      case 4
      then have "3 \<le> real e" by simp
      then have "0.9 \<le> real e * 0.3" by simp
      then have "min (real e * 0.3) 0.9 = (0.9::real)" by (simp add: min_absorb2)
      then show ?thesis using 4 by simp
    qed simp_all
  qed
  have b: "(if s > 0 then min (real s * 0.1) 0.2 else 0) =
      (if s = 0 then 0 else if s = 1 then 0.1 else (0.2::real))"
  proof -
    consider "s = 0" | "s = 1" | "2 \<le> s" by linarith
    then show ?thesis
    proof cases
      case 3
      then have "2 \<le> real s" by simp
      then have "0.2 \<le> real s * 0.1" by simp
      then have "min (real s * 0.1) 0.2 = (0.2::real)" by (simp add: min_absorb2)
      then show ?thesis using 3 by simp
    qed simp_all
  qed
  have "conservative_confidence e s =
      min ((if e > 0 then min (real e * 0.3) 0.9 else 0) +
           (if s > 0 then min (real s * 0.1) 0.2 else 0)) 0.95"
    unfolding conservative_confidence_def Let_def
    by (cases "s > 0") (simp_all only: if_True if_False)
  then show ?thesis by (simp only: a b)
qed

text \<open>The label of a conservative result, as a step function of its confidence.\<close>

lemma conservative_risk_by_confidence:
  "risk_rank (conservative_calculate_conservative_risk (conservative_confidence e s) e s) =
     (if conservative_confidence e s > 0.8 then 3
      else if conservative_confidence e s > 0.25 then 2
      else if conservative_confidence e s > 0 then 1 else 0)"
proof -
  consider "e = 0" | "e = 1" | "e = 2" | "3 \<le> e" by linarith
  then show ?thesis
  proof cases
    case 1
    consider "s = 0" | "s = 1" | "2 \<le> s" by linarith
    then show ?thesis
      using 1
      by cases (simp_all add: conservative_confidence_values
          conservative_calculate_conservative_risk_def)
  next
    case 2
    consider "s = 0" | "s = 1" | "2 \<le> s" by linarith
    then show ?thesis
      using 2
      by cases (simp_all add: conservative_confidence_values
          conservative_calculate_conservative_risk_def)
  next
    case 3
    consider "s = 0" | "s = 1" | "2 \<le> s" by linarith
    then show ?thesis
      using 3
      by cases (simp_all add: conservative_confidence_values
          conservative_calculate_conservative_risk_def)
  next
    case 4
    consider "s = 0" | "s = 1" | "2 \<le> s" by linarith
    then show ?thesis
      using 4
      by cases (simp_all add: conservative_confidence_values
          conservative_calculate_conservative_risk_def)
  qed
qed

lemma conservative_risk_of_result:
  "risk_rank (risk_level (conservative_analyze_content re self content ext)) =
     (if confidence_score (conservative_analyze_content re self content ext) > 0.8 then 3
      else if confidence_score (conservative_analyze_content re self content ext) > 0.25 then 2
      else if confidence_score (conservative_analyze_content re self content ext) > 0 then 1
      else 0)"
proof (cases "strip content = []")
  case True
  then show ?thesis
    by (simp add: conservative_analyze_content_empty conservative_create_empty_analysis_def)
next
  case False
  let ?r = "conservative_analyze_content re self content ext"
  from conservative_analyze_content_nonempty [OF False, of re self ext]
  have c: "confidence_score ?r =
        conservative_confidence (cds_explicit_markers (c_detailed_scores ?r))
          (cds_signature_matches (c_detailed_scores ?r))"
    and k: "risk_level ?r =
        conservative_calculate_conservative_risk (confidence_score ?r)
          (cds_explicit_markers (c_detailed_scores ?r))
          (cds_signature_matches (c_detailed_scores ?r))"
    by (simp_all add: Let_def)
  show ?thesis
    unfolding k unfolding c by (rule conservative_risk_by_confidence)
qed

subsection \<open>Monotonicity in the explicit-marker evidence\<close>

lemma strip_append_not_Nil:
  assumes "strip content \<noteq> []"
  shows "strip (content @ marker) \<noteq> []"
  using assms by (auto simp add: strip_Nil_iff)

lemma conservative_confidence_mono:
  assumes "e \<le> e'" "s \<le> s'"
  shows "conservative_confidence e s \<le> conservative_confidence e' s'"
proof -
  define A :: "nat \<Rightarrow> real" where
    "A = (\<lambda>e. if e = 0 then 0 else if e = 1 then 0.3 else if e = 2 then 0.6 else 0.9)"
  define B :: "nat \<Rightarrow> real" where
    "B = (\<lambda>s. if s = 0 then 0 else if s = 1 then 0.1 else 0.2)"
  have a: "A e \<le> A e'" using assms(1) by (auto simp add: A_def)
  have b: "B s \<le> B s'" using assms(2) by (auto simp add: B_def)
  have v: "\<And>e s. conservative_confidence e s = min (A e + B s) 0.95"
    by (simp only: conservative_confidence_values A_def B_def)
  have "A e + B s \<le> A e' + B s'" using a b by simp
  then have "min (A e + B s) 0.95 \<le> min (A e' + B s') (0.95::real)"
    by (rule min.mono) simp
  then show ?thesis by (simp only: v)
qed

lemma balanced_weighted_confidence_mono:
  assumes "s1 \<le> s2"
  shows "balanced_weighted_confidence (BalancedCopilotDetector cfg) s1 m w c h
       \<le> balanced_weighted_confidence (BalancedCopilotDetector cfg) s2 m w c h"
proof -
  define rest where
    "rest = m * w_moderate_indicators (weights (BalancedCopilotDetector cfg)) +
            w * w_weak_indicators (weights (BalancedCopilotDetector cfg)) +
            c * w_consistency_bonus (weights (BalancedCopilotDetector cfg)) +
            (if h > 0.85
             then (h - 0.85) * w_human_penalty (weights (BalancedCopilotDetector cfg)) else 0)"
  have k: "w_strong_indicators (weights (BalancedCopilotDetector cfg)) = 0.5"
    by (simp add: BalancedCopilotDetector_def balanced_initialize_weights_def)
  have e: "\<And>s. balanced_weighted_confidence (BalancedCopilotDetector cfg) s m w c h =
      max 0 (s * 0.5 + rest)"
    unfolding balanced_weighted_confidence_def rest_def k by (simp add: add.assoc)
  have "s1 * 0.5 + rest \<le> s2 * 0.5 + rest" using assms by simp
  then have "max 0 (s1 * 0.5 + rest) \<le> max 0 (s2 * 0.5 + rest)"
    by (rule max.mono [OF order_refl])
  then show ?thesis by (simp only: e)
qed

text \<open>
  On files of at most 30 non-blank lines the mid-range scaling is not applied, and the
  calibration is a monotonic function of its argument.
\<close>

lemma balanced_thresholds_mono_small:
  assumes "n \<le> 30" "x \<le> y"
  shows "balanced_apply_realistic_thresholds x n \<le> balanced_apply_realistic_thresholds y n"
proof -
  define k :: real where "k = (if n < 20 then 0.5 else 0.7)"
  define f3 :: "real \<Rightarrow> real" where "f3 = (\<lambda>p. if p < 0.05 then 0 else p)"
  define f4 :: "real \<Rightarrow> real" where "f4 = (\<lambda>p. if p > 0.6 then 0.6 + (p - 0.6) * 0.5 else p)"
  have kpos: "0 < k" by (simp add: k_def)
  have n30: "\<not> 30 < n" "n < 50" using assms(1) by simp_all
  have pre: "\<And>c. balanced_pre_floor c n = c * k"
    unfolding balanced_pre_floor_def Let_def k_def
    using n30 by (simp only: simp_thms if_False if_True split: if_split) simp
  have t: "\<And>c. balanced_apply_realistic_thresholds c n = min (max (f4 (f3 (c * k))) 0) 0.75"
    unfolding balanced_thresholds_via_pre_floor Let_def pre f3_def f4_def by (rule refl)
  have 1: "x * k \<le> y * k" using assms(2) kpos by simp
  have 3: "f3 (x * k) \<le> f3 (y * k)" using 1 by (auto simp add: f3_def)
  have 4: "f4 (f3 (x * k)) \<le> f4 (f3 (y * k))"
  proof -
    define a where "a = f3 (x * k)"
    define b where "b = f3 (y * k)"
    have ab: "a \<le> b" using 3 by (simp add: a_def b_def)
    have "(if a > 0.6 then 0.6 + (a - 0.6) * 0.5 else a)
        \<le> (if b > 0.6 then 0.6 + (b - 0.6) * 0.5 else b)"
    proof (cases "a > 0.6")
      case True
      then have "b > 0.6" using ab by linarith
      then show ?thesis using True ab by simp
    next
      case False
      show ?thesis
      proof (cases "b > 0.6")
        case True
        have "a \<le> 0.6 + (b - 0.6) * 0.5" using False True by (simp add: algebra_simps)
        then show ?thesis using False True by (simp only: if_True if_False)
      next
        case F: False
        then show ?thesis using False ab by (simp only: if_False)
      qed
    qed
    then show ?thesis by (simp only: f4_def a_def b_def)
  qed
  have "max (f4 (f3 (x * k))) 0 \<le> max (f4 (f3 (y * k))) 0"
    using 4 by (rule max.mono) simp
  then have "min (max (f4 (f3 (x * k))) 0) 0.75 \<le> min (max (f4 (f3 (y * k))) 0) (0.75::real)"
    by (rule min.mono) simp
  then show ?thesis by (simp only: t)
qed

subsection \<open>The detectors on the concrete inputs\<close>

lemma map_sum_pairD:
  "map_sum id (\<lambda>r. (f r, g r)) x = Inr (a, b) \<Longrightarrow>
     map_sum id f x = Inr a \<and> map_sum id g x = Inr b"
  by (cases x) auto

lemma balanced_on_sample_long:
  "map_sum id (\<lambda>r. (core r, detailed_scores r))
     (balanced_analyze_content python_re (BalancedCopilotDetector ()) sample_long ''.py'')
     = Inr ((49 / 240, 6, 31, MEDIUM),
        \<lparr>ds_strong_indicators = 1 / 2, ds_moderate_indicators = 0,
         ds_weak_indicators = 0, ds_consistency_score = 5 / 6,
         ds_human_patterns = 0, ds_base_confidence = 7 / 24,
         ds_human_penalty_applied = 0\<rparr>)"
  by code_simp

lemma balanced_on_sample_long_marked:
  "map_sum id (\<lambda>r. (core r, detailed_scores r))
     (balanced_analyze_content python_re (BalancedCopilotDetector ()) sample_long_marked ''.py'')
     = Inr ((63 / 320, 6, 31, HIGH),
        \<lparr>ds_strong_indicators = 2 / 3, ds_moderate_indicators = 0,
         ds_weak_indicators = 0, ds_consistency_score = 5 / 6,
         ds_human_patterns = 0, ds_base_confidence = 3 / 8,
         ds_human_penalty_applied = 0\<rparr>)"
  by code_simp

lemma balanced_on_sample_small:
  "map_sum id (\<lambda>r. (core r, detailed_scores r))
     (balanced_analyze_content python_re (BalancedCopilotDetector ()) sample_small ''.py'')
     = Inr ((7 / 48, 0, 3, MEDIUM),
        \<lparr>ds_strong_indicators = 1 / 2, ds_moderate_indicators = 0,
         ds_weak_indicators = 0, ds_consistency_score = 5 / 6,
         ds_human_patterns = 0, ds_base_confidence = 7 / 24,
         ds_human_penalty_applied = 0\<rparr>)"
  by code_simp

lemma balanced_on_sample_small_marked:
  "map_sum id (\<lambda>r. (core r, detailed_scores r))
     (balanced_analyze_content python_re (BalancedCopilotDetector ()) sample_small_marked ''.py'')
     = Inr ((3 / 16, 0, 3, HIGH),
        \<lparr>ds_strong_indicators = 2 / 3, ds_moderate_indicators = 0,
         ds_weak_indicators = 0, ds_consistency_score = 5 / 6,
         ds_human_patterns = 0, ds_base_confidence = 3 / 8,
         ds_human_penalty_applied = 0\<rparr>)"
  by code_simp

section \<open>The claims\<close>






text \<open>
  C4, as the code has it. For the realistic and the conservative detector the risk label
  is a monotonic function of the returned confidence alone: of two results, the one with
  the higher confidence never has the lower label, and equal confidences give equal
  labels. For the balanced detector the label is a function of the confidence, the strong
  score and the moderate score together, monotonic in the three: it is monotonic in the
  confidence between results whose strong and moderate scores do not decrease.
\<close>

theorem risk_label_monotone:
  "(\<exists>r1 r2.
      realistic_analyze_content re (RealisticCopilotDetector cfg_r) content1 ext1 = Inr r1 \<and>
      realistic_analyze_content re (RealisticCopilotDetector cfg_r) content2 ext2 = Inr r2 \<and>
      (confidence_score r1 \<le> confidence_score r2 \<longrightarrow>
         risk_rank (risk_level r1) \<le> risk_rank (risk_level r2)) \<and>
      (confidence_score r1 = confidence_score r2 \<longrightarrow> risk_level r1 = risk_level r2)) \<and>
   (confidence_score (conservative_analyze_content re self_c content1 ext1)
      \<le> confidence_score (conservative_analyze_content re self_c content2 ext2) \<longrightarrow>
    risk_rank (risk_level (conservative_analyze_content re self_c content1 ext1))
      \<le> risk_rank (risk_level (conservative_analyze_content re self_c content2 ext2))) \<and>
   (confidence_score (conservative_analyze_content re self_c content1 ext1)
      = confidence_score (conservative_analyze_content re self_c content2 ext2) \<longrightarrow>
    risk_level (conservative_analyze_content re self_c content1 ext1)
      = risk_level (conservative_analyze_content re self_c content2 ext2)) \<and>
   (\<exists>r1 r2.
      balanced_analyze_content re self_b content1 ext1 = Inr r1 \<and>
      balanced_analyze_content re self_b content2 ext2 = Inr r2 \<and>
      (confidence_score r1 \<le> confidence_score r2 \<and>
       ds_strong_indicators (detailed_scores r1) \<le> ds_strong_indicators (detailed_scores r2) \<and>
       ds_moderate_indicators (detailed_scores r1)
         \<le> ds_moderate_indicators (detailed_scores r2) \<longrightarrow>
       risk_rank (risk_level r1) \<le> risk_rank (risk_level r2)))"
proof (intro conjI)
  obtain r1 where r1:
    "realistic_analyze_content re (RealisticCopilotDetector cfg_r) content1 ext1 = Inr r1"
    using realistic_in_range [of re cfg_r content1 ext1] by blast
  obtain r2 where r2:
    "realistic_analyze_content re (RealisticCopilotDetector cfg_r) content2 ext2 = Inr r2"
    using realistic_in_range [of re cfg_r content2 ext2] by blast
  note k1 = realistic_risk_of_result [OF r1]
  note k2 = realistic_risk_of_result [OF r2]
  have "confidence_score r1 \<le> confidence_score r2 \<longrightarrow>
         risk_rank (risk_level r1) \<le> risk_rank (risk_level r2)"
    unfolding k1 k2 using realistic_risk_step_mono by blast
  moreover have "confidence_score r1 = confidence_score r2 \<longrightarrow> risk_level r1 = risk_level r2"
    unfolding k1 k2 by simp
  ultimately show "\<exists>r1 r2.
      realistic_analyze_content re (RealisticCopilotDetector cfg_r) content1 ext1 = Inr r1 \<and>
      realistic_analyze_content re (RealisticCopilotDetector cfg_r) content2 ext2 = Inr r2 \<and>
      (confidence_score r1 \<le> confidence_score r2 \<longrightarrow>
         risk_rank (risk_level r1) \<le> risk_rank (risk_level r2)) \<and>
      (confidence_score r1 = confidence_score r2 \<longrightarrow> risk_level r1 = risk_level r2)"
    using r1 r2 by blast
next
  let ?a = "conservative_analyze_content re self_c content1 ext1"
  let ?b = "conservative_analyze_content re self_c content2 ext2"
  show "confidence_score ?a \<le> confidence_score ?b \<longrightarrow>
      risk_rank (risk_level ?a) \<le> risk_rank (risk_level ?b)"
    unfolding conservative_risk_of_result by auto
  show "confidence_score ?a = confidence_score ?b \<longrightarrow> risk_level ?a = risk_level ?b"
  proof
    assume "confidence_score ?a = confidence_score ?b"
    then have "risk_rank (risk_level ?a) = risk_rank (risk_level ?b)"
      unfolding conservative_risk_of_result by simp
    then show "risk_level ?a = risk_level ?b" by (rule risk_rank_inj)
  qed
next
  obtain r1 where r1: "balanced_analyze_content re self_b content1 ext1 = Inr r1"
    using balanced_in_range [of re self_b content1 ext1] by blast
  obtain r2 where r2: "balanced_analyze_content re self_b content2 ext2 = Inr r2"
    using balanced_in_range [of re self_b content2 ext2] by blast
  note k1 = balanced_risk_of_result [OF r1]
  note k2 = balanced_risk_of_result [OF r2]
  have "confidence_score r1 \<le> confidence_score r2 \<and>
       ds_strong_indicators (detailed_scores r1) \<le> ds_strong_indicators (detailed_scores r2) \<and>
       ds_moderate_indicators (detailed_scores r1)
         \<le> ds_moderate_indicators (detailed_scores r2) \<longrightarrow>
       risk_rank (risk_level r1) \<le> risk_rank (risk_level r2)"
    unfolding k1 k2 using balanced_risk_mono by blast
  then show "\<exists>r1 r2.
      balanced_analyze_content re self_b content1 ext1 = Inr r1 \<and>
      balanced_analyze_content re self_b content2 ext2 = Inr r2 \<and>
      (confidence_score r1 \<le> confidence_score r2 \<and>
       ds_strong_indicators (detailed_scores r1) \<le> ds_strong_indicators (detailed_scores r2) \<and>
       ds_moderate_indicators (detailed_scores r1)
         \<le> ds_moderate_indicators (detailed_scores r2) \<longrightarrow>
       risk_rank (risk_level r1) \<le> risk_rank (risk_level r2))"
    using r1 r2 by blast
qed

theorem risk_label_monotone_witness:
  "(\<exists>r1 r2.
      realistic_analyze_content python_re (RealisticCopilotDetector ()) sample_small ''.py''
        = Inr r1 \<and>
      realistic_analyze_content python_re (RealisticCopilotDetector ()) sample_small_marked ''.py''
        = Inr r2 \<and>
      core r1 = (0, 0, 3, MINIMAL) \<and> core r2 = (6 / 25, 0, 3, LOW) \<and>
      risk_rank (risk_level r1) \<le> risk_rank (risk_level r2)) \<and>
   core (conservative_analyze_content python_re (ConservativeCopilotDetector ()) ''pass'' ''.py'')
     = (0, 0, 1, MINIMAL) \<and>
   core (conservative_analyze_content python_re (ConservativeCopilotDetector ()) sample_small
           ''.py'') = (3 / 10, 0, 3, MEDIUM) \<and>
   risk_rank (risk_level
       (conservative_analyze_content python_re (ConservativeCopilotDetector ()) ''pass'' ''.py''))
     \<le> risk_rank (risk_level
       (conservative_analyze_content python_re (ConservativeCopilotDetector ()) sample_small
          ''.py'')) \<and>
   (\<exists>r1 r2.
      balanced_analyze_content python_re (BalancedCopilotDetector ()) sample_small ''.py''
        = Inr r1 \<and>
      balanced_analyze_content python_re (BalancedCopilotDetector ()) sample_small_marked ''.py''
        = Inr r2 \<and>
      core r1 = (7 / 48, 0, 3, MEDIUM) \<and> core r2 = (3 / 16, 0, 3, HIGH) \<and>
      ds_strong_indicators (detailed_scores r1) = 1 / 2 \<and>
      ds_strong_indicators (detailed_scores r2) = 2 / 3 \<and>
      ds_moderate_indicators (detailed_scores r1) = 0 \<and>
      ds_moderate_indicators (detailed_scores r2) = 0 \<and>
      risk_rank (risk_level r1) \<le> risk_rank (risk_level r2))"
proof -
  note t = risk_label_monotone [of python_re "()" sample_small "''.py''" sample_small_marked
      "''.py''" "ConservativeCopilotDetector ()" "BalancedCopilotDetector ()"]
  from t obtain r1 r2 where r:
    "realistic_analyze_content python_re (RealisticCopilotDetector ()) sample_small ''.py''
        = Inr r1"
    "realistic_analyze_content python_re (RealisticCopilotDetector ()) sample_small_marked ''.py''
        = Inr r2"
    "confidence_score r1 \<le> confidence_score r2 \<longrightarrow>
         risk_rank (risk_level r1) \<le> risk_rank (risk_level r2)"
    by blast
  have "map_sum id core
      (realistic_analyze_content python_re (RealisticCopilotDetector ()) sample_small ''.py'')
      = Inr (0, 0, 3, MINIMAL)"
    by code_simp
  then have c1: "core r1 = (0, 0, 3, MINIMAL)" using r(1) by simp
  have "map_sum id core
      (realistic_analyze_content python_re (RealisticCopilotDetector ()) sample_small_marked
         ''.py'') = Inr (6 / 25, 0, 3, LOW)"
    by code_simp
  then have c2: "core r2 = (6 / 25, 0, 3, LOW)" using r(2) by simp
  have "confidence_score r1 \<le> confidence_score r2"
    using c1 c2 by (simp add: core_def)
  then have A: "risk_rank (risk_level r1) \<le> risk_rank (risk_level r2)" using r(3) by simp
  note u = risk_label_monotone [of python_re "()" "''pass''" "''.py''" sample_small
      "''.py''" "ConservativeCopilotDetector ()" "BalancedCopilotDetector ()"]
  have d1: "core (conservative_analyze_content python_re (ConservativeCopilotDetector ())
      ''pass'' ''.py'') = (0, 0, 1, MINIMAL)"
    by code_simp
  have d2: "core (conservative_analyze_content python_re (ConservativeCopilotDetector ())
      sample_small ''.py'') = (3 / 10, 0, 3, MEDIUM)"
    by code_simp
  have "confidence_score (conservative_analyze_content python_re (ConservativeCopilotDetector ())
      ''pass'' ''.py'') \<le> confidence_score (conservative_analyze_content python_re
      (ConservativeCopilotDetector ()) sample_small ''.py'')"
    using d1 d2 by (simp add: core_def)
  then have B: "risk_rank (risk_level
       (conservative_analyze_content python_re (ConservativeCopilotDetector ()) ''pass'' ''.py''))
     \<le> risk_rank (risk_level
       (conservative_analyze_content python_re (ConservativeCopilotDetector ()) sample_small
          ''.py''))"
    using u by blast
  from t obtain b1 b2 where b:
    "balanced_analyze_content python_re (BalancedCopilotDetector ()) sample_small ''.py''
        = Inr b1"
    "balanced_analyze_content python_re (BalancedCopilotDetector ()) sample_small_marked ''.py''
        = Inr b2"
    "confidence_score b1 \<le> confidence_score b2 \<and>
       ds_strong_indicators (detailed_scores b1) \<le> ds_strong_indicators (detailed_scores b2) \<and>
       ds_moderate_indicators (detailed_scores b1)
         \<le> ds_moderate_indicators (detailed_scores b2) \<longrightarrow>
       risk_rank (risk_level b1) \<le> risk_rank (risk_level b2)"
    by blast
  have "map_sum id (\<lambda>r. (core r, ds_strong_indicators (detailed_scores r),
          ds_moderate_indicators (detailed_scores r)))
      (balanced_analyze_content python_re (BalancedCopilotDetector ()) sample_small ''.py'')
      = Inr ((7 / 48, 0, 3, MEDIUM), 1 / 2, 0)"
    by code_simp
  then have e1: "core b1 = (7 / 48, 0, 3, MEDIUM)"
    "ds_strong_indicators (detailed_scores b1) = 1 / 2"
    "ds_moderate_indicators (detailed_scores b1) = 0"
    using b(1) by simp_all
  have "map_sum id (\<lambda>r. (core r, ds_strong_indicators (detailed_scores r),
          ds_moderate_indicators (detailed_scores r)))
      (balanced_analyze_content python_re (BalancedCopilotDetector ()) sample_small_marked
         ''.py'') = Inr ((3 / 16, 0, 3, HIGH), 2 / 3, 0)"
    by code_simp
  then have e2: "core b2 = (3 / 16, 0, 3, HIGH)"
    "ds_strong_indicators (detailed_scores b2) = 2 / 3"
    "ds_moderate_indicators (detailed_scores b2) = 0"
    using b(2) by simp_all
  have "confidence_score b1 \<le> confidence_score b2"
    using e1(1) e2(1) by (simp add: core_def)
  then have C: "risk_rank (risk_level b1) \<le> risk_rank (risk_level b2)"
    using b(3) e1 e2 by simp
  show ?thesis
    using r(1,2) c1 c2 A d1 d2 B b(1,2) e1 e2 C by blast
qed

text \<open>
  C4 as stated fails for the balanced detector: \<open>sample_small_marked\<close> gets the label HIGH
  at the confidence 3/16 (its strong score is 2/3), while \<open>sample_long\<close> gets MEDIUM at the
  higher confidence 49/240 (its strong score is 1/2).
\<close>

theorem risk_label_not_function_of_confidence:
  "map_sum id core
     (balanced_analyze_content python_re (BalancedCopilotDetector ()) sample_small_marked ''.py'')
     = Inr (3 / 16, 0, 3, HIGH) \<and>
   map_sum id core
     (balanced_analyze_content python_re (BalancedCopilotDetector ()) sample_long ''.py'')
     = Inr (49 / 240, 6, 31, MEDIUM) \<and>
   (3 / 16 :: real) < 49 / 240 \<and>
   risk_rank MEDIUM < risk_rank HIGH"
  using map_sum_pairD [OF balanced_on_sample_small_marked]
    map_sum_pairD [OF balanced_on_sample_long]
  by simp

text \<open>
  C5. On an empty or whitespace-only text, each of the three detectors returns its empty
  analysis and raises nothing; that result has confidence 0, no analysed line and the
  risk level MINIMAL.
\<close>

theorem empty_input_gives_empty_analysis:
  assumes "list_all isspace content"
  shows "balanced_analyze_content re self_b content ext = Inr balanced_create_empty_analysis \<and>
    realistic_analyze_content re self_r content ext = Inr realistic_create_empty_analysis \<and>
    conservative_analyze_content re self_c content ext = conservative_create_empty_analysis \<and>
    core balanced_create_empty_analysis = (0, 0, 0, MINIMAL) \<and>
    core realistic_create_empty_analysis = (0, 0, 0, MINIMAL) \<and>
    core conservative_create_empty_analysis = (0, 0, 0, MINIMAL)"
proof -
  have "strip content = []"
    using assms by (simp add: strip_Nil_iff list_all_iff)
  then show ?thesis
    by (simp add: balanced_analyze_content_empty realistic_analyze_content_empty
        conservative_analyze_content_empty core_def balanced_create_empty_analysis_def
        realistic_create_empty_analysis_def conservative_create_empty_analysis_def)
qed

theorem empty_input_witness:
  "list_all isspace [CHR '' '', nl, CHR 0x09] \<and>
   map_sum id core
     (balanced_analyze_content python_re (BalancedCopilotDetector ()) [CHR '' '', nl, CHR 0x09]
        ''.py'') = Inr (0, 0, 0, MINIMAL) \<and>
   map_sum id core
     (realistic_analyze_content python_re (RealisticCopilotDetector ()) [CHR '' '', nl, CHR 0x09]
        ''.py'') = Inr (0, 0, 0, MINIMAL) \<and>
   core (conservative_analyze_content python_re (ConservativeCopilotDetector ())
        [CHR '' '', nl, CHR 0x09] ''.py'') = (0, 0, 0, MINIMAL)"
proof -
  have h: "list_all isspace [CHR '' '', nl, CHR 0x09]"
    by (simp add: isspace_def nl_def)
  show ?thesis
    using h empty_input_gives_empty_analysis [OF h, of python_re "BalancedCopilotDetector ()"
        "''.py''" "RealisticCopilotDetector ()" "ConservativeCopilotDetector ()"]
    by simp
qed

text \<open>
  C6. Adding an explicit marker to a text must not lower the reported confidence. The
  balanced detector breaks this. In \<^verbatim>\<open>_apply_realistic_thresholds\<close> the step commented
  \<^verbatim>\<open>For files without explicit AI markers, apply moderate scaling\<close> is taken whenever the
  dampened value exceeds 0.25 on more than 30 lines, whether or not the file carries
  explicit markers (the realistic detector guards the same step with
  \<^verbatim>\<open>has_explicit\<close>). \<open>sample_long_marked\<close> is \<open>sample_long\<close> with the marker
  \<^verbatim>\<open>@generated\<close> appended to its last line: the strong score rises from 1/2 to
  2/3, every other score and the line count are unchanged, and the confidence falls from
  49/240 to 63/320.
\<close>

theorem more_markers_less_confidence:
  "sample_long_marked = sample_long @ '' @generated'' \<and>
   map_sum id (\<lambda>r. (core r, detailed_scores r))
     (balanced_analyze_content python_re (BalancedCopilotDetector ()) sample_long ''.py'')
     = Inr ((49 / 240, 6, 31, MEDIUM),
        \<lparr>ds_strong_indicators = 1 / 2, ds_moderate_indicators = 0,
         ds_weak_indicators = 0, ds_consistency_score = 5 / 6,
         ds_human_patterns = 0, ds_base_confidence = 7 / 24,
         ds_human_penalty_applied = 0\<rparr>) \<and>
   map_sum id (\<lambda>r. (core r, detailed_scores r))
     (balanced_analyze_content python_re (BalancedCopilotDetector ()) sample_long_marked ''.py'')
     = Inr ((63 / 320, 6, 31, HIGH),
        \<lparr>ds_strong_indicators = 2 / 3, ds_moderate_indicators = 0,
         ds_weak_indicators = 0, ds_consistency_score = 5 / 6,
         ds_human_patterns = 0, ds_base_confidence = 3 / 8,
         ds_human_penalty_applied = 0\<rparr>) \<and>
   (63 / 320 :: real) < 49 / 240"
  using balanced_on_sample_long balanced_on_sample_long_marked
  by (simp add: sample_long_marked_def)



text \<open>
  C9. \<^verbatim>\<open>_calculate_indentation_consistency\<close>, applied to a list of leading-whitespace
  widths, is 1 when the sorted distinct widths are at most one or have all consecutive
  differences equal, and otherwise \<open>1 - variance / (max + 1)\<close> confined to \<open>[0, 1]\<close>, the
  variance being the sample variance of \<^verbatim>\<open>statistics.variance\<close>. In
  \<^verbatim>\<open>_analyze_consistency\<close> the list is that of the widths of the non-blank lines.
\<close>

theorem indentation_consistency_meets_spec:
  "balanced_calculate_indentation_consistency indentations =
     indentation_consistency_spec indentations"
proof (cases "length indentations \<le> 1")
  case True
  have "length (remdups indentations) \<le> 1"
    using True length_remdups_leq [of indentations] by linarith
  then show ?thesis
    using True
    by (simp add: balanced_calculate_indentation_consistency_def
        indentation_consistency_spec_def Let_def)
next
  case False
  define u where "u = sort (remdups indentations)"
  define v where "v = statistics_variance (map real indentations)"
  define m where "m = Max (set indentations)"
  have ne: "indentations \<noteq> []" using False by auto
  have code: "balanced_calculate_indentation_consistency indentations =
      (if length u > 1 \<and> length (remdups (consecutive_differences u)) = 1 then 1
       else max 0 (1 - v / real (m + 1)))"
    unfolding balanced_calculate_indentation_consistency_def Let_def
      steps_are_consecutive_differences u_def v_def m_def
    using False ne by simp
  have spec: "indentation_consistency_spec indentations =
      (if length u \<le> 1 \<or> all_equal (consecutive_differences u) then 1
       else min 1 (max 0 (1 - v / real (m + 1))))"
    unfolding indentation_consistency_spec_def Let_def u_def v_def m_def by (rule refl)
  have v0: "0 \<le> v" by (simp add: v_def statistics_variance_nonneg)
  then have "0 \<le> v / real (m + 1)" by simp
  then have le1: "max 0 (1 - v / real (m + 1)) \<le> 1" by simp
  show ?thesis
  proof (cases "length u > 1")
    case True
    then have "consecutive_differences u \<noteq> []"
      by (cases u; cases "tl u") (auto simp add: consecutive_differences_def)
    then have "length (remdups (consecutive_differences u)) = 1
        \<longleftrightarrow> all_equal (consecutive_differences u)"
      by (rule one_distinct_iff_all_equal)
    then show ?thesis
      using True le1 unfolding code spec by (simp add: min_absorb2)
  next
    case F: False
    have "length u = card (set indentations)"
      by (simp add: u_def length_remdups_card_conv)
    moreover have "0 < card (set indentations)" using ne by (simp add: card_gt_0_iff)
    ultimately have "card (set indentations) = 1" using F by simp
    then obtain a where "set indentations = {a}"
      by (auto simp add: card_1_singleton_iff)
    then have "v = 0" unfolding v_def by (rule statistics_variance_constant)
    then show ?thesis
      using F unfolding code spec by simp
  qed
qed

theorem indentation_consistency_witness:
  "balanced_calculate_indentation_consistency [0, 4, 8, 4] = 1 \<and>
   indentation_consistency_spec [0, 4, 8, 4] = 1 \<and>
   balanced_calculate_indentation_consistency [0, 1, 4] = 2 / 15 \<and>
   indentation_consistency_spec [0, 1, 4] = 2 / 15 \<and>
   balanced_calculate_indentation_consistency [2, 2, 2] = 1 \<and>
   indentation_consistency_spec [2, 2, 2] = 1"
proof -
  have "indentation_consistency_spec [0, 4, 8, 4] = 1"
    "indentation_consistency_spec [0, 1, 4] = 2 / 15"
    "indentation_consistency_spec [2, 2, 2] = 1"
    by code_simp+
  then show ?thesis
    by (simp only: indentation_consistency_meets_spec simp_thms)
qed

text \<open>
  C10. For every input, the balanced detector's \<^verbatim>\<open>analyze_content\<close> returns (it raises no
  error) and the confidence score of its result never exceeds 0.75, the hard cap that ends
  \<^verbatim>\<open>_apply_realistic_thresholds\<close>. The statement holds for every answer of the
  regular-expression engine, every configuration, text and extension.
\<close>

theorem balanced_confidence_capped:
  "\<exists>r. balanced_analyze_content re (BalancedCopilotDetector cfg) content ext = Inr r \<and>
       confidence_score r \<le> 0.75"
  using balanced_in_range [of re "BalancedCopilotDetector cfg" content ext] by blast

end
